theory Spec2Isabelle
  imports Complex_Main
begin

section \<open>Tensors and the TensorFlow primitives the layer uses\<close>

text \<open>
  The layer of \<^verbatim>\<open>auto_yolo/models/object_layer.py\<close> computes on float tensors whose
  last axis holds the channels of one batch element at one grid cell. The model follows
  one batch element: a tensor of shape (batch, n) is the list of its n channels, and
  floats are real numbers (rounding, infinities and NaN are outside the model), except
  for the training-wheels blend, whose float32 rounding is modelled in a section of its
  own.
  Elementwise operations on two tensors are only ever applied to tensors of the same
  shape in the source, so they are written with \<open>map2\<close>.
\<close>

type_synonym tensor = "real list"

datatype error =
    AssertionError
  | Exception string
  | ValueError
  | IndexError

definition sigmoid :: "real \<Rightarrow> real" where
  "sigmoid x = 1 / (1 + exp (- x))"

definition tf_sigmoid :: "tensor \<Rightarrow> tensor" where
  "tf_sigmoid t = map sigmoid t"

text \<open>\<^verbatim>\<open>tf.clip_by_value(t, lo, hi)\<close> is \<^verbatim>\<open>minimum(maximum(t, lo), hi)\<close>, elementwise.\<close>

definition clip_by_value :: "real \<Rightarrow> real \<Rightarrow> real \<Rightarrow> real" where
  "clip_by_value x lo hi = min (max x lo) hi"

definition tf_clip_by_value :: "tensor \<Rightarrow> real \<Rightarrow> real \<Rightarrow> tensor" where
  "tf_clip_by_value t lo hi = map (\<lambda>x. clip_by_value x lo hi) t"

text \<open>\<^verbatim>\<open>tf.stop_gradient\<close> is the identity on the forward value.\<close>

definition tf_stop_gradient :: "tensor \<Rightarrow> tensor" where
  "tf_stop_gradient t = t"

text \<open>Scalar times tensor, tensor plus tensor, tensor divided by scalar, zeros_like.\<close>

definition smul :: "real \<Rightarrow> tensor \<Rightarrow> tensor" where
  "smul c t = map (\<lambda>x. c * x) t"

definition sadd :: "tensor \<Rightarrow> real \<Rightarrow> tensor" where
  "sadd t c = map (\<lambda>x. x + c) t"

definition sdivide :: "tensor \<Rightarrow> real \<Rightarrow> tensor" where
  "sdivide t c = map (\<lambda>x. x / c) t"

definition tadd :: "tensor \<Rightarrow> tensor \<Rightarrow> tensor" where
  "tadd s t = map2 (+) s t"

definition tf_zeros_like :: "tensor \<Rightarrow> tensor" where
  "tf_zeros_like t = map (\<lambda>x. 0) t"

definition to_float :: "bool \<Rightarrow> real" where
  "to_float b = (if b then 1 else 0)"

text \<open>
  \<^verbatim>\<open>tf.round\<close> rounds half to even. For a value strictly between 0 and 1 that is
  0 up to and including one half, and 1 above it; outside that interval the model uses
  the nearest integer with halves resolved to the even neighbour.
\<close>

definition tf_round :: "real \<Rightarrow> real" where
  "tf_round x =
     (let f = floor x; d = x - of_int f
      in if d < 1 / 2 then of_int f
         else if 1 / 2 < d then of_int f + 1
         else if even f then of_int f else of_int f + 1)"

text \<open>
  \<^verbatim>\<open>Normal(loc, scale).sample()\<close> draws \<^verbatim>\<open>loc + scale * eps\<close> with \<open>eps\<close> standard normal
  noise, one draw per element. The noise is an explicit argument: \<open>eps i\<close> is the draw
  for element \<open>i\<close>.
\<close>

definition normal_sample :: "(nat \<Rightarrow> real) \<Rightarrow> tensor \<Rightarrow> tensor \<Rightarrow> tensor" where
  "normal_sample eps loc scale =
     map (\<lambda>i. loc ! i + scale ! i * eps i) [0..<length loc]"

section \<open>The layer objects\<close>

text \<open>
  \<open>params\<close> holds the \<^verbatim>\<open>Param()\<close> attributes of \<^verbatim>\<open>ObjectLayer\<close> and \<^verbatim>\<open>GridObjectLayer\<close>
  that the forward pass reads (the prior parameters only enter the KL terms);
  \<open>layer\<close> adds the attributes that \<^verbatim>\<open>__init__\<close> and the first \<^verbatim>\<open>_call\<close> assign.
  \<open>nA\<close>, \<open>nB\<close>, \<open>nH\<close>, \<open>nW\<close>, \<open>nHWB\<close> are \<^verbatim>\<open>self.A\<close>, \<^verbatim>\<open>self.B\<close>, \<^verbatim>\<open>self.H\<close>,
  \<^verbatim>\<open>self.W\<close>, \<^verbatim>\<open>self.HWB\<close>. The attributes of the second group that Python creates
  only at the first call hold placeholders until then.
\<close>

record params =
  nA :: nat
  training_wheels :: real
  noisy :: bool
  eval_noisy :: bool
  obj_temp :: real
  obj_concrete_temp :: real
  object_shape :: "nat \<times> nat"
  n_passthrough_features :: nat
  n_lookback :: int
  min_yx :: real
  max_yx :: real
  min_hw :: real
  max_hw :: real
  anchor_box :: "real \<times> real"
  n_objects_per_cell :: int

record layer = params +
  pixels_per_cell :: "real \<times> real"
  grid_offset :: "real \<times> real"
  nB :: int
  initialized :: bool
  nH :: nat
  nW :: nat
  nHWB :: int
  image_height :: nat
  image_width :: nat
  image_depth :: nat
  is_training :: bool
  float_is_training :: real
  edge_weights :: "tensor option"

text \<open>The property \<^verbatim>\<open>_noisy\<close> of \<^verbatim>\<open>ObjectLayer\<close>.\<close>

definition noisy' :: "layer \<Rightarrow> real" where
  "noisy' L = float_is_training L * to_float (noisy L)
              + (1 - float_is_training L) * to_float (eval_noisy L)"

definition std_nonlinearity :: "layer \<Rightarrow> tensor \<Rightarrow> tensor" where
  "std_nonlinearity L std_logit =
     tadd (smul (noisy' L * 2) (tf_sigmoid (tf_clip_by_value std_logit (-10) 10)))
          (smul (1 - noisy' L) (tf_zeros_like std_logit))"

definition z_nonlinearity :: "tensor \<Rightarrow> tensor" where
  "z_nonlinearity z_logit = tf_sigmoid (tf_clip_by_value z_logit (-10) 10)"

section \<open>The presence builder\<close>

text \<open>
  Modelled from the spec: \<^verbatim>\<open>concrete_binary_pre_sigmoid_sample\<close> is imported from
  \<^verbatim>\<open>auto_yolo.models.core\<close>, which is not among the sources. The spec describes it as the
  continuous (Concrete, or Gumbel-sigmoid) relaxation of a Bernoulli at a temperature, a
  pure function of the log-odds, the temperature and a random source, taken before the
  sigmoid: the log-odds plus logistic noise \<open>ln u - ln (1 - u)\<close> of a uniform draw \<open>u\<close>,
  divided by the temperature.
\<close>

definition concrete_binary_pre_sigmoid_sample :: "real \<Rightarrow> real \<Rightarrow> real \<Rightarrow> real" where
  "concrete_binary_pre_sigmoid_sample u log_odds temperature =
     (log_odds + (ln u - ln (1 - u))) / temperature"

record obj_built =
  obj_log_odds :: tensor
  obj_prob :: tensor
  obj_pre_sigmoid :: tensor
  obj :: tensor

text \<open>
  \<^verbatim>\<open>_build_obj\<close>. The relaxation is a parameter \<open>sample\<close>: \<open>sample i x t\<close> is the
  pre-sigmoid Concrete sample for element \<open>i\<close> at log-odds \<open>x\<close> and temperature \<open>t\<close>
  (each element has its own random draw).
\<close>

definition build_obj :: "layer \<Rightarrow> (nat \<Rightarrow> real \<Rightarrow> real \<Rightarrow> real) \<Rightarrow> tensor \<Rightarrow> obj_built" where
  "build_obj L sample obj_logit0 =
     (let obj_logit = tadd (smul (training_wheels L) (tf_stop_gradient obj_logit0))
                           (smul (1 - training_wheels L) obj_logit0);
          log_odds = tf_clip_by_value (sdivide obj_logit (obj_temp L)) (-10) 10;
          pre_sigmoid =
            tadd (smul (noisy' L)
                    (map (\<lambda>i. sample i (log_odds ! i) (obj_concrete_temp L))
                       [0..<length log_odds]))
                 (smul (1 - noisy' L) log_odds)
      in \<lparr> obj_log_odds = log_odds,
           obj_prob = tf_sigmoid log_odds,
           obj_pre_sigmoid = pre_sigmoid,
           obj = tf_sigmoid pre_sigmoid \<rparr>)"

section \<open>The box builder\<close>

text \<open>
  \<^verbatim>\<open>tf.split(value, n, axis=-1)\<close> for \<open>n = 2\<close> and \<open>n = 4\<close>: equal parts, and an error
  when the axis is not divisible by \<open>n\<close>. \<^verbatim>\<open>tf.split(value, sizes, axis)\<close> for two, three
  and four sizes: an error unless the sizes add up to the axis.
\<close>

definition tf_split2 :: "tensor \<Rightarrow> error + (tensor \<times> tensor)" where
  "tf_split2 t =
     (if length t mod 2 \<noteq> 0 then Inl ValueError
      else let k = length t div 2 in Inr (take k t, drop k t))"

definition tf_split4 :: "tensor \<Rightarrow> error + (tensor \<times> tensor \<times> tensor \<times> tensor)" where
  "tf_split4 t =
     (if length t mod 4 \<noteq> 0 then Inl ValueError
      else let k = length t div 4
           in Inr (take k t, take k (drop k t), take k (drop (2 * k) t), drop (3 * k) t))"

definition tf_split_sizes2 :: "tensor \<Rightarrow> nat \<Rightarrow> nat \<Rightarrow> error + (tensor \<times> tensor)" where
  "tf_split_sizes2 t n1 n2 =
     (if n1 + n2 \<noteq> length t then Inl ValueError
      else Inr (take n1 t, drop n1 t))"

definition tf_split_sizes3 ::
  "tensor \<Rightarrow> nat \<Rightarrow> nat \<Rightarrow> nat \<Rightarrow> error + (tensor \<times> tensor \<times> tensor)" where
  "tf_split_sizes3 t n1 n2 n3 =
     (if n1 + n2 + n3 \<noteq> length t then Inl ValueError
      else Inr (take n1 t, take n2 (drop n1 t), drop (n1 + n2) t))"


text \<open>
  The random draws of one cell-slot: the standard normal noise of the six
  \<^verbatim>\<open>Normal(...).sample()\<close> calls and the Concrete relaxation of the presence builder.
\<close>

record noise =
  eps_cell_y :: "nat \<Rightarrow> real"
  eps_cell_x :: "nat \<Rightarrow> real"
  eps_height :: "nat \<Rightarrow> real"
  eps_width :: "nat \<Rightarrow> real"
  eps_attr :: "nat \<Rightarrow> real"
  eps_z :: "nat \<Rightarrow> real"
  concrete_sample :: "nat \<Rightarrow> real \<Rightarrow> real \<Rightarrow> real"

record box_built =
  cell_y :: tensor
  cell_x :: tensor
  height :: tensor
  width :: tensor
  local_box :: tensor
  cell_y_logit_mean :: tensor
  cell_x_logit_mean :: tensor
  height_logit_mean :: tensor
  width_logit_mean :: tensor
  cell_y_logit_std :: tensor
  cell_x_logit_std :: tensor
  height_logit_std :: tensor
  width_logit_std :: tensor
  yt :: tensor
  xt :: tensor
  ys :: tensor
  xs :: tensor
  normalized_box :: tensor
  ys_logit :: tensor
  xs_logit :: tensor

text \<open>
  \<^verbatim>\<open>_build_box(box_params, is_training, hw)\<close>. With \<^verbatim>\<open>hw=None\<close> the source takes \<open>h\<close>
  and \<open>w\<close> from \<^verbatim>\<open>tf.meshgrid\<close>, whose value at the grid cell \<open>(i, j)\<close> is \<open>h = i\<close>,
  \<open>w = j\<close>; \<open>cell\<close> is the grid cell of the modelled element. The two \<^verbatim>\<open>assert\<close>
  statements are the two \<open>AssertionError\<close> branches, in the source's order.
\<close>

definition build_box ::
  "layer \<Rightarrow> noise \<Rightarrow> tensor \<Rightarrow> (real \<times> real) option \<Rightarrow> nat \<times> nat \<Rightarrow> error + box_built" where
  "build_box L rnd box_params hw cell =
     (case tf_split2 box_params of
        Inl e \<Rightarrow> Inl e
      | Inr (mean0, log_std) \<Rightarrow>
     (let std0 = std_nonlinearity L log_std;
          mean = tadd (smul (training_wheels L) (tf_stop_gradient mean0))
                      (smul (1 - training_wheels L) mean0);
          std = tadd (smul (training_wheels L) (tf_stop_gradient std0))
                     (smul (1 - training_wheels L) std0)
      in case tf_split4 mean of
        Inl e \<Rightarrow> Inl e
      | Inr (cell_y_mean, cell_x_mean, height_mean, width_mean) \<Rightarrow>
     (case tf_split4 std of
        Inl e \<Rightarrow> Inl e
      | Inr (cell_y_std, cell_x_std, height_std, width_std) \<Rightarrow>
     (let cell_y_logit = normal_sample (eps_cell_y rnd) cell_y_mean cell_y_std;
          cell_x_logit = normal_sample (eps_cell_x rnd) cell_x_mean cell_x_std;
          height_logit = normal_sample (eps_height rnd) height_mean height_std;
          width_logit = normal_sample (eps_width rnd) width_mean width_std;
          cell_y0 = tf_sigmoid (tf_clip_by_value cell_y_logit (-10) 10);
          cell_x0 = tf_sigmoid (tf_clip_by_value cell_x_logit (-10) 10)
      in if \<not> (max_yx L > min_yx L) then Inl AssertionError
         else
     (let cell_y1 = sadd (smul (max_yx L - min_yx L) cell_y0) (min_yx L);
          cell_x1 = sadd (smul (max_yx L - min_yx L) cell_x0) (min_yx L);
          height0 = tf_sigmoid (tf_clip_by_value height_logit (-10) 10);
          width0 = tf_sigmoid (tf_clip_by_value width_logit (-10) 10)
      in if \<not> (max_hw L > min_hw L) then Inl AssertionError
         else
     (let height1 = sadd (smul (max_hw L - min_hw L) height0) (min_hw L);
          width1 = sadd (smul (max_hw L - min_hw L) width0) (min_hw L);
          h = (case hw of None \<Rightarrow> real (fst cell) | Some p \<Rightarrow> fst p);
          w = (case hw of None \<Rightarrow> real (snd cell) | Some p \<Rightarrow> snd p);
          yt1 = sdivide (sadd (smul (fst (pixels_per_cell L)) (sadd cell_y1 h))
                              (fst (grid_offset L)))
                        (fst (anchor_box L));
          xt1 = sdivide (sadd (smul (snd (pixels_per_cell L)) (sadd cell_x1 w))
                              (snd (grid_offset L)))
                        (snd (anchor_box L))
      in Inr \<lparr> cell_y = cell_y1, cell_x = cell_x1, height = height1, width = width1,
               local_box = cell_y1 @ cell_x1 @ height1 @ width1,
               cell_y_logit_mean = cell_y_mean, cell_x_logit_mean = cell_x_mean,
               height_logit_mean = height_mean, width_logit_mean = width_mean,
               cell_y_logit_std = cell_y_std, cell_x_logit_std = cell_x_std,
               height_logit_std = height_std, width_logit_std = width_std,
               yt = yt1, xt = xt1, ys = height1, xs = width1,
               normalized_box = yt1 @ xt1 @ height1 @ width1,
               ys_logit = height_logit, xs_logit = width_logit \<rparr>))))))"

section \<open>The program array and the sequential context\<close>

text \<open>
  \<^verbatim>\<open>program\<close> is a three-dimensional numpy array of Python objects. \<open>item\<close> gives the
  object stored at an index; the element type \<open>'a\<close> is the type of those objects.
  Indexing follows numpy: an index \<open>i\<close> of an axis of length \<open>n\<close> is valid when
  \<open>-n \<le> i < n\<close>, a negative one counts from the end, any other raises IndexError.
\<close>

record 'a ndarray =
  shape0 :: int
  shape1 :: int
  shape2 :: int
  item :: "int \<times> int \<times> int \<Rightarrow> 'a"

definition np_index :: "int \<Rightarrow> int \<Rightarrow> error + int" where
  "np_index n i =
     (if 0 \<le> i \<and> i < n then Inr i
      else if - n \<le> i \<and> i < 0 then Inr (i + n)
      else Inl IndexError)"

definition getitem :: "'a ndarray \<Rightarrow> int \<Rightarrow> int \<Rightarrow> int \<Rightarrow> error + 'a" where
  "getitem a i j k =
     (case np_index (shape0 a) i of Inl e \<Rightarrow> Inl e | Inr i' \<Rightarrow>
      case np_index (shape1 a) j of Inl e \<Rightarrow> Inl e | Inr j' \<Rightarrow>
      case np_index (shape2 a) k of Inl e \<Rightarrow> Inl e | Inr k' \<Rightarrow>
        Inr (item a (i', j', k')))"


text \<open>
  Python's \<^verbatim>\<open>range(n)\<close>, and \<^verbatim>\<open>int(a / b)\<close> for integers \<open>a\<close> and \<open>b \<noteq> 0\<close>: the true
  quotient truncated towards zero (the float division is exact on the magnitudes that
  occur here). Python's \<^verbatim>\<open>%\<close> on integers is \<open>mod\<close>.
\<close>

definition py_range :: "int \<Rightarrow> int list" where
  "py_range n = [0..n - 1]"

definition int_truediv :: "int \<Rightarrow> int \<Rightarrow> int" where
  "int_truediv a b = sgn a * sgn b * (\<bar>a\<bar> div \<bar>b\<bar>)"

text \<open>Running a list of computations in order: the first error is the one raised.\<close>

fun sequence :: "(error + 'a) list \<Rightarrow> error + 'a list" where
  "sequence [] = Inr []"
| "sequence (Inl e # cs) = Inl e"
| "sequence (Inr v # cs) = (case sequence cs of Inl e \<Rightarrow> Inl e | Inr vs \<Rightarrow> Inr (v # vs))"

text \<open>
  The two loops of \<^verbatim>\<open>_get_sequential_context\<close>: the entry appended for the surrounding
  location \<open>idx\<close> and slot \<open>k\<close>, the entry appended for the earlier slot \<open>k\<close> of the
  current location, and the list \<^verbatim>\<open>context\<close> when both loops have run.
\<close>

definition surrounding_entry ::
  "layer \<Rightarrow> 'a ndarray \<Rightarrow> int \<Rightarrow> int \<Rightarrow> 'a \<Rightarrow> int \<Rightarrow> int \<Rightarrow> error + 'a" where
  "surrounding_entry L program h w edge_element idx k =
     (let grid_size = 2 * n_lookback L + 1;
          i = int_truediv idx grid_size + h - n_lookback L;
          j = idx mod grid_size + w - n_lookback L
      in if i < 0 \<or> j < 0 \<or> i \<ge> shape0 program \<or> j \<ge> shape1 program
         then Inr edge_element
         else getitem program i j k)"

definition previous_entry ::
  "layer \<Rightarrow> 'a ndarray \<Rightarrow> int \<Rightarrow> int \<Rightarrow> int \<Rightarrow> 'a \<Rightarrow> int \<Rightarrow> error + 'a" where
  "previous_entry L program h w b edge_element k =
     (let offset = - (nB L - 1) + b;
          k' = k + offset
      in if k' < 0 then Inr edge_element else getitem program h w k')"

definition sequential_context_entries ::
  "layer \<Rightarrow> 'a ndarray \<Rightarrow> int \<Rightarrow> int \<Rightarrow> int \<Rightarrow> 'a \<Rightarrow> error + 'a list" where
  "sequential_context_entries L program h w b edge_element =
     (let grid_size = 2 * n_lookback L + 1;
          n_grid_locs = int_truediv (grid_size ^ 2) 2
      in sequence
           (concat (map (\<lambda>idx. map (\<lambda>k. surrounding_entry L program h w edge_element idx k)
                                  (py_range (nB L)))
                        (py_range n_grid_locs))
            @ map (\<lambda>k. previous_entry L program h w b edge_element k) (py_range (nB L - 1))))"

text \<open>
  The objects in the array are tensors, or None where \<^verbatim>\<open>np.empty\<close> left the slot
  unfilled. \<^verbatim>\<open>tf.concat\<close> along the channel axis appends the tensors; it raises on an
  empty list and on a None.
\<close>

fun concat_tensors :: "tensor option list \<Rightarrow> error + tensor" where
  "concat_tensors [] = Inr []"
| "concat_tensors (None # ts) = Inl ValueError"
| "concat_tensors (Some t # ts) =
     (case concat_tensors ts of Inl e \<Rightarrow> Inl e | Inr r \<Rightarrow> Inr (t @ r))"

definition tf_concat :: "tensor option list \<Rightarrow> error + tensor" where
  "tf_concat ts = (if ts = [] then Inl ValueError else concat_tensors ts)"

definition get_sequential_context ::
  "layer \<Rightarrow> tensor option ndarray \<Rightarrow> int \<Rightarrow> int \<Rightarrow> int \<Rightarrow> tensor \<Rightarrow> error + tensor" where
  "get_sequential_context L program h w b edge_element =
     (case sequential_context_entries L program h w b (Some edge_element) of
        Inl e \<Rightarrow> Inl e
      | Inr context \<Rightarrow> if context \<noteq> [] then tf_concat context else Inr [])"

section \<open>The sequential grid layer\<close>

text \<open>
  The sub-networks are built by \<^verbatim>\<open>cfg.build_lateral\<close> and \<^verbatim>\<open>maybe_build_subnet\<close>, outside
  the sources; they are parameters. A network is called with its input, the requested
  output size and the training flag; \<open>'f\<close> is what it maps: the feature vector of
  one cell in the sequential layer, the whole feature map in the convolutional one.
  \<open>glimpse_sampler\<close> stands for the chain
  \<^verbatim>\<open>coords_to_image_space\<close>, \<^verbatim>\<open>AffineGridWarper\<close> and resampler that turns the normalized
  box into the glimpse cut from the image.
\<close>

record 'f networks =
  box_network :: "'f \<Rightarrow> nat \<Rightarrow> bool \<Rightarrow> 'f"
  attr_network :: "'f \<Rightarrow> nat \<Rightarrow> bool \<Rightarrow> 'f"
  z_network :: "'f \<Rightarrow> nat \<Rightarrow> bool \<Rightarrow> 'f"
  obj_network :: "'f \<Rightarrow> nat \<Rightarrow> bool \<Rightarrow> 'f"
  object_encoder :: "tensor \<Rightarrow> nat \<Rightarrow> bool \<Rightarrow> tensor"
  glimpse_sampler :: "tensor \<Rightarrow> tensor"

text \<open>
  The latent of one cell-slot: the dictionary \<^verbatim>\<open>built\<close>, with the entries of the box and
  presence builders kept as the records those builders return.
\<close>

record built =
  box_part :: box_built
  attr_mean :: tensor
  attr_std :: tensor
  attr :: tensor
  glimpse :: tensor
  z_logit_mean :: tensor
  z_logit_std :: tensor
  z_logit :: tensor
  z :: tensor
  obj_part :: obj_built






text \<open>
  The result of \<^verbatim>\<open>_call\<close>: \<open>results\<close> holds the latents in loop order (each field of
  \<^verbatim>\<open>objects\<close> is the stack of that field over \<open>results\<close>), together with the two
  predicted counts and the tiled propagation state.
\<close>

record objects =
  results :: "built list"
  prop_state :: "tensor list option"
  prior_prop_state :: "tensor list option"
  pred_n_objects :: real
  pred_n_objects_hard :: real

definition objects_obj :: "built list \<Rightarrow> tensor list" where
  "objects_obj rs = map (\<lambda>r. obj (obj_part r)) rs"

definition reduce_sum :: "tensor list \<Rightarrow> real" where
  "reduce_sum ts = sum_list (map sum_list ts)"




section \<open>The convolutional grid layer\<close>

text \<open>
  In \<^verbatim>\<open>ConvGridObjectLayer\<close> a feature map is the grid of the channel vectors of its
  cells, row by row, and the networks are size-preserving convolutions over the whole
  map. \<open>map_cells\<close> runs a computation on every cell with its grid position, in row-major
  order, and \<open>concat_channels\<close> is \<^verbatim>\<open>tf.concat\<close> of two maps along the channel axis.
\<close>

type_synonym feature_map = "tensor list list"

definition map_cells ::
  "(nat \<Rightarrow> nat \<Rightarrow> 'a \<Rightarrow> error + 'b) \<Rightarrow> 'a list list \<Rightarrow> error + 'b list list" where
  "map_cells f g =
     sequence (map (\<lambda>(i, row). sequence (map (\<lambda>(j, c). f i j c) (enumerate 0 row)))
                   (enumerate 0 g))"

definition concat_channels :: "feature_map \<Rightarrow> feature_map \<Rightarrow> feature_map" where
  "concat_channels g1 g2 = map2 (map2 (@)) g1 g2"

definition conv_call_attributes ::
  "layer \<Rightarrow> nat \<Rightarrow> nat \<Rightarrow> nat \<times> nat \<times> nat \<Rightarrow> bool \<Rightarrow> layer" where
  "conv_call_attributes L H W inp_shape training =
     (if \<not> initialized L
      then L\<lparr> image_height := fst inp_shape, image_width := fst (snd inp_shape),
              image_depth := snd (snd inp_shape),
              nH := H, nW := W, nHWB := int H * int W,
              is_training := training, float_is_training := to_float training \<rparr>
      else L)"

text \<open>
  \<^verbatim>\<open>ConvGridObjectLayer._call\<close>. The slot count is checked right after the sub-networks
  are set up and the shape of the features is read, before the attributes are cached
  and before any builder runs. \<open>flatten\<close> is the attribute \<^verbatim>\<open>self.flatten\<close>; the
  latents are listed in row-major order whether the grid axes are flattened or not.
\<close>

definition conv_call ::
  "layer \<Rightarrow> feature_map networks \<Rightarrow> (nat \<Rightarrow> nat \<Rightarrow> noise) \<Rightarrow> nat \<times> nat \<times> nat
   \<Rightarrow> nat \<Rightarrow> nat \<Rightarrow> feature_map \<Rightarrow> bool \<Rightarrow> bool \<Rightarrow> tensor option \<Rightarrow> bool \<Rightarrow> error + objects" where
  "conv_call L0 nets rnd inp_shape H W inp_features training is_posterior prop flatten =
     (if nB L0 \<noteq> 1 then Inl (Exception ''NotImplemented'')
      else
     (let L = conv_call_attributes L0 H W inp_shape training;
          is_posterior_tf = (if is_posterior then [1, 0] else [0, 1]);
          base_features = map (map (\<lambda>f. f @ is_posterior_tf)) inp_features;
          n_features = n_passthrough_features L
      in case map_cells
                (\<lambda>i j out.
                   case tf_split_sizes2 out 8 n_features of
                     Inl e \<Rightarrow> Inl e
                   | Inr (rep_input, features) \<Rightarrow>
                  (case build_box L (rnd i j) rep_input None (i, j) of
                     Inl e \<Rightarrow> Inl e
                   | Inr bx \<Rightarrow> Inr (bx, features)))
                (box_network nets base_features (8 + n_features) (is_training L)) of
        Inl e \<Rightarrow> Inl e
      | Inr stage1 \<Rightarrow>
     (let boxes = map (map fst) stage1;
          features1 = map (map snd) stage1;
          glimpses =
            map (map (\<lambda>bx. if is_posterior then glimpse_sampler nets (normalized_box bx)
                            else replicate
                              (fst (object_shape L) * snd (object_shape L) * image_depth L) 0))
                boxes;
          encoded0 = map (map (\<lambda>g. object_encoder nets g (nA L) (is_training L))) glimpses;
          encoded_glimpse =
            (if \<not> is_posterior then map (map tf_zeros_like) encoded0 else encoded0);
          local_boxes = map (map local_box) boxes
      in case map_cells
                (\<lambda>i j out.
                   case tf_split_sizes3 out (nA L) (nA L) n_features of
                     Inl e \<Rightarrow> Inl e
                   | Inr (attr_mean1, attr_log_std, features) \<Rightarrow>
                       Inr (attr_mean1, std_nonlinearity L attr_log_std,
                            normal_sample (eps_attr (rnd i j)) attr_mean1
                              (std_nonlinearity L attr_log_std),
                            features))
                (attr_network nets
                   (concat_channels (concat_channels (concat_channels base_features features1)
                      encoded_glimpse) local_boxes)
                   (2 * nA L + n_features) (is_training L)) of
        Inl e \<Rightarrow> Inl e
      | Inr stage2 \<Rightarrow>
     (let attrs = map (map (\<lambda>(m, s, a, f). a)) stage2;
          features2 = map (map (\<lambda>(m, s, a, f). f)) stage2
      in case map_cells
                (\<lambda>i j out.
                   case tf_split_sizes3 out 1 1 n_features of
                     Inl e \<Rightarrow> Inl e
                   | Inr (z_mean0, z_log_std, features) \<Rightarrow>
                      (let z_std0 = std_nonlinearity L z_log_std;
                           z_mean = tadd (smul (training_wheels L) (tf_stop_gradient z_mean0))
                                         (smul (1 - training_wheels L) z_mean0);
                           z_std = tadd (smul (training_wheels L) (tf_stop_gradient z_std0))
                                        (smul (1 - training_wheels L) z_std0);
                           z_logit1 = normal_sample (eps_z (rnd i j)) z_mean z_std
                       in Inr (z_mean, z_std, z_logit1, z_nonlinearity z_logit1, features)))
                (z_network nets
                   (concat_channels (concat_channels (concat_channels base_features features2)
                      local_boxes) attrs)
                   (2 + n_features) (is_training L)) of
        Inl e \<Rightarrow> Inl e
      | Inr stage3 \<Rightarrow>
     (let zs = map (map (\<lambda>(m, s, l, v, f). v)) stage3;
          features3 = map (map (\<lambda>(m, s, l, v, f). f)) stage3
      in case map_cells
                (\<lambda>i j out. Inr (build_obj L (concrete_sample (rnd i j)) out))
                (obj_network nets
                   (concat_channels (concat_channels (concat_channels
                      (concat_channels base_features features3) local_boxes) attrs) zs)
                   1 (is_training L)) of
        Inl e \<Rightarrow> Inl e
      | Inr stage4 \<Rightarrow>
     (let rs = map (\<lambda>(((bx, gl), (m, s, a, f)), ((zm, zsd, zl, zv, zf), ob)).
                      \<lparr> box_part = bx, attr_mean = m, attr_std = s, attr = a, glimpse = gl,
                        z_logit_mean = zm, z_logit_std = zsd, z_logit = zl, z = zv,
                        obj_part = ob \<rparr>)
                   (zip (zip (zip (concat boxes) (concat glimpses)) (concat stage2))
                        (zip (concat stage3) (concat stage4)))
      in if flatten \<and> int (length rs) \<noteq> nHWB L then Inl ValueError
         else Inr \<lparr> results = rs,
                    prop_state = map_option (\<lambda>p. replicate (H * W) p) prop,
                    prior_prop_state = map_option (\<lambda>p. replicate (H * W) p) prop,
                    pred_n_objects = reduce_sum (objects_obj rs),
                    pred_n_objects_hard =
                      reduce_sum (map (map tf_round) (objects_obj rs)) \<rparr>))))))"



section \<open>The constructor\<close>

text \<open>
  \<^verbatim>\<open>GridObjectLayer.__init__(pixels_per_cell, grid_offset=None, ...)\<close>, after the
  constructors of its base classes: it stores its arguments, takes a zero offset when none
  is given, copies \<^verbatim>\<open>n_objects_per_cell\<close> into \<^verbatim>\<open>B\<close>, and passes the scheduled
  parameters through \<^verbatim>\<open>build_scheduled_value\<close> (outside the sources; the model holds
  their values). None of its statements compares the box ranges or raises. The
  attributes assigned at the first call start as placeholders.
\<close>

definition GridObjectLayer_init ::
  "params \<Rightarrow> real \<times> real \<Rightarrow> (real \<times> real) option \<Rightarrow> error + layer" where
  "GridObjectLayer_init ps pixels_per_cell_arg grid_offset_arg =
     Inr \<lparr> nA = nA ps, training_wheels = training_wheels ps, noisy = noisy ps,
           eval_noisy = eval_noisy ps, obj_temp = obj_temp ps,
           obj_concrete_temp = obj_concrete_temp ps, object_shape = object_shape ps,
           n_passthrough_features = n_passthrough_features ps,
           n_lookback = n_lookback ps, min_yx = min_yx ps, max_yx = max_yx ps,
           min_hw = min_hw ps, max_hw = max_hw ps, anchor_box = anchor_box ps,
           n_objects_per_cell = n_objects_per_cell ps,
           pixels_per_cell = pixels_per_cell_arg,
           grid_offset = (case grid_offset_arg of None \<Rightarrow> (0, 0) | Some g \<Rightarrow> g),
           nB = n_objects_per_cell ps,
           initialized = False, nH = 0, nW = 0, nHWB = 0,
           image_height = 0, image_width = 0, image_depth = 0,
           is_training = False, float_is_training = 0, edge_weights = None \<rparr>"

text \<open>Parameters whose box ranges are inverted: \<open>min_yx > max_yx\<close> and \<open>min_hw > max_hw\<close>.\<close>

definition inverted_params :: params where
  "inverted_params =
     \<lparr> nA = 2, training_wheels = 0, noisy = True, eval_noisy = False,
       obj_temp = 1, obj_concrete_temp = 1, object_shape = (2, 2),
       n_passthrough_features = 1, n_lookback = 1,
       min_yx = 1, max_yx = 0, min_hw = 1, max_hw = 0,
       anchor_box = (48, 48), n_objects_per_cell = 1 \<rparr>"

section \<open>A concrete configuration\<close>

text \<open>
  A layer with a 3 by 3 grid, two slots per cell, lookback radius 1, attribute width 2
  and unit box ranges, in training mode with noise switched on; and random draws that
  are all zero, with the relaxation at the uniform draw one half.
\<close>

definition example_layer :: layer where
  "example_layer =
     \<lparr> nA = 2, training_wheels = 1 / 2, noisy = True, eval_noisy = False,
       obj_temp = 1, obj_concrete_temp = 1 / 2, object_shape = (2, 2),
       n_passthrough_features = 1,
       n_lookback = 1, min_yx = 0, max_yx = 1, min_hw = 0, max_hw = 1,
       anchor_box = (48, 48), n_objects_per_cell = 2,
       pixels_per_cell = (12, 12), grid_offset = (0, 0), nB = 2,
       initialized = False, nH = 3, nW = 3, nHWB = 18,
       image_height = 36, image_width = 36, image_depth = 1, is_training = True,
       float_is_training = 1, edge_weights = None \<rparr>"

definition example_noise :: noise where
  "example_noise =
     \<lparr> eps_cell_y = (\<lambda>i. 0), eps_cell_x = (\<lambda>i. 0), eps_height = (\<lambda>i. 0),
       eps_width = (\<lambda>i. 0), eps_attr = (\<lambda>i. 0), eps_z = (\<lambda>i. 0),
       concrete_sample = (\<lambda>i. concrete_binary_pre_sigmoid_sample (1 / 2)) \<rparr>"


definition example_conv_networks :: "feature_map networks" where
  "example_conv_networks =
     \<lparr> box_network = (\<lambda>x n t. map (map (\<lambda>c. replicate n 0)) x),
       attr_network = (\<lambda>x n t. map (map (\<lambda>c. replicate n 0)) x),
       z_network = (\<lambda>x n t. map (map (\<lambda>c. replicate n 0)) x),
       obj_network = (\<lambda>x n t. map (map (\<lambda>c. replicate n 0)) x),
       object_encoder = (\<lambda>x n t. replicate n 0),
       glimpse_sampler = (\<lambda>x. replicate 4 0) \<rparr>"

text \<open>A 3 by 3 by 2 program array whose every slot holds a zero entry of width 8.\<close>

definition example_program :: "tensor option ndarray" where
  "example_program =
     \<lparr> shape0 = 3, shape1 = 3, shape2 = 2, item = (\<lambda>p. Some (replicate 8 0)) \<rparr>"

text \<open>
  A 3 by 3 by 2 program array whose slot \<open>(i, j, k)\<close> holds the one-element entry
  \<open>[100 * i + 10 * j + k]\<close>, so that every entry of a context names the position it was
  read from.
\<close>

definition numbered_program :: "tensor option ndarray" where
  "numbered_program =
     \<lparr> shape0 = 3, shape1 = 3, shape2 = 2,
       item = (\<lambda>p. Some [of_int (100 * fst p + 10 * fst (snd p) + snd (snd p))]) \<rparr>"

section \<open>The training-wheels blend in float32\<close>








section \<open>Basic facts\<close>

lemma sigmoid_gt_0: "0 < sigmoid x"
  by (simp add: sigmoid_def add_pos_pos)

lemma sigmoid_lt_1: "sigmoid x < 1"
  by (simp add: sigmoid_def add_pos_pos)

lemma clip_by_value_bounds:
  "lo \<le> hi \<Longrightarrow> lo \<le> clip_by_value x lo hi \<and> clip_by_value x lo hi \<le> hi"
  by (simp add: clip_by_value_def)

lemma list_all_tf_sigmoid: "list_all (\<lambda>v. 0 \<le> v \<and> v \<le> 1) (tf_sigmoid t)"
  by (simp add: tf_sigmoid_def list_all_iff less_imp_le sigmoid_gt_0 sigmoid_lt_1)

lemma list_all_tf_clip:
  "lo \<le> hi \<Longrightarrow> list_all (\<lambda>v. lo \<le> v \<and> v \<le> hi) (tf_clip_by_value t lo hi)"
  by (simp add: tf_clip_by_value_def list_all_iff clip_by_value_bounds)

lemma tadd_smul_same:
  "tadd (smul a (tf_stop_gradient t)) (smul b t) = map (\<lambda>x. a * x + b * x) t"
  by (simp add: tadd_def smul_def tf_stop_gradient_def zip_map_map zip_same_conv_map)

lemma training_wheels_blend_id: "tadd (smul a (tf_stop_gradient t)) (smul (1 - a) t) = t"
  by (simp add: tadd_smul_same algebra_simps map_idI)

lemma affine_sigmoid_bounds:
  assumes "lo < hi"
  shows "lo \<le> (hi - lo) * sigmoid x + lo \<and> (hi - lo) * sigmoid x + lo \<le> hi"
proof -
  have d: "0 < hi - lo" using assms by simp
  have "0 \<le> (hi - lo) * sigmoid x"
    using d sigmoid_gt_0 [of x] by (simp add: less_imp_le)
  moreover have "(hi - lo) * sigmoid x \<le> (hi - lo) * 1"
    using d sigmoid_lt_1 [of x] by (intro mult_left_mono) simp_all
  ultimately show ?thesis by simp
qed

lemma list_all_affine_sigmoid:
  assumes "lo < hi"
  shows "list_all (\<lambda>v. lo \<le> v \<and> v \<le> hi) (sadd (smul (hi - lo) (tf_sigmoid t)) lo)"
  unfolding sadd_def smul_def tf_sigmoid_def list_all_iff
  using affine_sigmoid_bounds [OF assms] by auto

lemma tf_split2_even:
  "even (length t) \<Longrightarrow> tf_split2 t = Inr (take (length t div 2) t, drop (length t div 2) t)"
  by (simp add: tf_split2_def Let_def)

lemma tf_split4_dvd:
  "4 dvd length t \<Longrightarrow>
   tf_split4 t = Inr (take (length t div 4) t, take (length t div 4) (drop (length t div 4) t),
                      take (length t div 4) (drop (2 * (length t div 4)) t),
                      drop (3 * (length t div 4)) t)"
  by (simp add: tf_split4_def Let_def)

lemma length_std_nonlinearity: "length (std_nonlinearity L t) = length t"
  by (simp add: std_nonlinearity_def tadd_def smul_def tf_sigmoid_def tf_clip_by_value_def
        tf_zeros_like_def)

lemma length_tensor_ops:
  "length (smul c t) = length t"
  "length (sadd t c) = length t"
  "length (sdivide t c) = length t"
  "length (tadd s t) = min (length s) (length t)"
  "length (tf_sigmoid t) = length t"
  "length (tf_clip_by_value t lo hi) = length t"
  "length (tf_zeros_like t) = length t"
  "length (tf_stop_gradient t) = length t"
  "length (normal_sample eps t s) = length t"
  by (simp_all add: smul_def sadd_def sdivide_def tadd_def tf_sigmoid_def tf_clip_by_value_def
        tf_zeros_like_def tf_stop_gradient_def normal_sample_def)

lemma build_obj_simp:
  "build_obj L sample obj_logit =
     \<lparr> obj_log_odds = tf_clip_by_value (sdivide obj_logit (obj_temp L)) (-10) 10,
       obj_prob = tf_sigmoid (tf_clip_by_value (sdivide obj_logit (obj_temp L)) (-10) 10),
       obj_pre_sigmoid =
         tadd (smul (noisy' L)
                (map (\<lambda>i. sample i
                             (tf_clip_by_value (sdivide obj_logit (obj_temp L)) (-10) 10 ! i)
                             (obj_concrete_temp L))
                   [0..<length obj_logit]))
              (smul (1 - noisy' L)
                 (tf_clip_by_value (sdivide obj_logit (obj_temp L)) (-10) 10)),
       obj = tf_sigmoid
         (tadd (smul (noisy' L)
                (map (\<lambda>i. sample i
                             (tf_clip_by_value (sdivide obj_logit (obj_temp L)) (-10) 10 ! i)
                             (obj_concrete_temp L))
                   [0..<length obj_logit]))
              (smul (1 - noisy' L)
                 (tf_clip_by_value (sdivide obj_logit (obj_temp L)) (-10) 10))) \<rparr>"
  by (simp add: build_obj_def training_wheels_blend_id Let_def length_tensor_ops)

section \<open>The box builder returns, and what it returns\<close>

lemma build_box_returns:
  assumes "min_yx L < max_yx L" "min_hw L < max_hw L" "8 dvd length box_params"
  shows "\<exists>r. build_box L rnd box_params hw cell = Inr r"
proof -
  have e: "even (length box_params)" using assms(3) by presburger
  have f: "4 dvd (length box_params div 2)" using assms(3) by presburger
  have g: "4 dvd length (take (length box_params div 2) box_params)" using f by simp
  have h: "4 dvd length (std_nonlinearity L (drop (length box_params div 2) box_params))"
    using f e by (simp add: length_std_nonlinearity) presburger
  show ?thesis
    using assms(1,2)
    by (simp add: build_box_def tf_split2_even [OF e] training_wheels_blend_id Let_def
          tf_split4_dvd [OF g] tf_split4_dvd [OF h])
qed

lemma build_box_InrD:
  assumes "build_box L rnd box_params hw cell = Inr r"
  shows "min_yx L < max_yx L \<and> min_hw L < max_hw L
    \<and> cell_y r = sadd (smul (max_yx L - min_yx L) (tf_sigmoid (tf_clip_by_value
         (normal_sample (eps_cell_y rnd) (cell_y_logit_mean r) (cell_y_logit_std r))
         (-10) 10))) (min_yx L)
    \<and> cell_x r = sadd (smul (max_yx L - min_yx L) (tf_sigmoid (tf_clip_by_value
         (normal_sample (eps_cell_x rnd) (cell_x_logit_mean r) (cell_x_logit_std r))
         (-10) 10))) (min_yx L)
    \<and> height r = sadd (smul (max_hw L - min_hw L)
         (tf_sigmoid (tf_clip_by_value (ys_logit r) (-10) 10))) (min_hw L)
    \<and> width r = sadd (smul (max_hw L - min_hw L)
         (tf_sigmoid (tf_clip_by_value (xs_logit r) (-10) 10))) (min_hw L)
    \<and> ys_logit r = normal_sample (eps_height rnd) (height_logit_mean r) (height_logit_std r)
    \<and> xs_logit r = normal_sample (eps_width rnd) (width_logit_mean r) (width_logit_std r)
    \<and> yt r = sdivide (sadd (smul (fst (pixels_per_cell L))
                 (sadd (cell_y r) (case hw of None \<Rightarrow> real (fst cell) | Some p \<Rightarrow> fst p)))
                 (fst (grid_offset L))) (fst (anchor_box L))
    \<and> xt r = sdivide (sadd (smul (snd (pixels_per_cell L))
                 (sadd (cell_x r) (case hw of None \<Rightarrow> real (snd cell) | Some p \<Rightarrow> snd p)))
                 (snd (grid_offset L))) (snd (anchor_box L))
    \<and> ys r = height r \<and> xs r = width r
    \<and> local_box r = cell_y r @ cell_x r @ height r @ width r
    \<and> normalized_box r = yt r @ xt r @ ys r @ xs r"
  using assms
  by (auto simp: build_box_def Let_def split: sum.splits prod.splits if_splits)

section \<open>Facts about the Python and numpy primitives\<close>

lemma sequence_Inr_D: "sequence cs = Inr vs \<Longrightarrow> cs = map Inr vs"
proof (induction cs arbitrary: vs)
  case Nil
  then show ?case by simp
next
  case (Cons c cs)
  then show ?case by (cases c) (auto split: sum.splits)
qed

lemma sequence_returns:
  assumes "\<And>c. c \<in> set cs \<Longrightarrow> \<exists>v. c = Inr v"
  shows "\<exists>vs. sequence cs = Inr vs \<and> length vs = length cs"
  using assms
proof (induction cs)
  case Nil
  then show ?case by simp
next
  case (Cons c cs)
  then obtain v where "c = Inr v" by auto
  moreover obtain vs where "sequence cs = Inr vs \<and> length vs = length cs"
    using Cons by auto
  ultimately show ?case by simp
qed

lemma length_py_range: "length (py_range n) = nat n"
  by (simp add: py_range_def)

lemma set_py_range: "set (py_range n) = {0..<n}"
  by (auto simp: py_range_def)

lemma int_truediv_nonneg: "0 \<le> a \<Longrightarrow> 0 < b \<Longrightarrow> int_truediv a b = a div b"
  by (cases "a = 0") (simp_all add: int_truediv_def)

lemma np_index_in_range: "0 \<le> i \<Longrightarrow> i < n \<Longrightarrow> np_index n i = Inr i"
  by (simp add: np_index_def)

lemma getitem_in_range:
  "0 \<le> i \<Longrightarrow> i < shape0 a \<Longrightarrow> 0 \<le> j \<Longrightarrow> j < shape1 a \<Longrightarrow> 0 \<le> k \<Longrightarrow> k < shape2 a
   \<Longrightarrow> getitem a i j k = Inr (item a (i, j, k))"
  by (simp add: getitem_def np_index_in_range)

lemma length_concat_map_map:
  "length (concat (map (\<lambda>i. map (f i) ks) is)) = length is * length ks"
  by (induction "is") simp_all







section \<open>One step of the loop, and the loop\<close>






section \<open>The entries of the sequential context\<close>

lemma lookback_count: "(2 * l + 1) ^ 2 div 2 = l * (2 * l + 1) + (l :: int)"
proof -
  have "(2 * l + 1) ^ 2 = 2 * (l * (2 * l + 1) + l) + 1"
    by (simp add: power2_eq_square algebra_simps)
  then show ?thesis by simp
qed

lemma causal_index:
  fixes idx l :: int
  assumes "0 \<le> l" "0 \<le> idx" "idx < (2 * l + 1) ^ 2 div 2"
  shows "idx div (2 * l + 1) < l \<or> (idx div (2 * l + 1) = l \<and> idx mod (2 * l + 1) < l)"
proof -
  let ?g = "2 * l + 1"
  let ?q = "idx div ?g"
  let ?r = "idx mod ?g"
  have g: "0 < ?g" using assms(1) by simp
  have r: "0 \<le> ?r" "?r < ?g"
    using g pos_mod_sign [of ?g idx] pos_mod_bound [of ?g idx] by blast+
  have e: "idx = ?g * ?q + ?r" by simp
  have lt: "?g * ?q + ?r < l * ?g + l"
    using assms(3) unfolding lookback_count by simp
  show ?thesis
  proof (cases "?q < l")
    case True
    then show ?thesis by simp
  next
    case False
    then have ql: "l \<le> ?q" by simp
    have "\<not> l + 1 \<le> ?q"
    proof
      assume "l + 1 \<le> ?q"
      then have "?g * (l + 1) \<le> ?g * ?q" using g by (intro mult_left_mono) simp_all
      then have "l * ?g + ?g \<le> ?g * ?q" by (simp add: algebra_simps)
      then show False using lt r(1) assms(1) by linarith
    qed
    then have q: "?q = l" using ql by simp
    have "?r < l" using lt unfolding q by (simp add: algebra_simps)
    then show ?thesis using q by simp
  qed
qed

lemma surrounding_entry_causal:
  assumes "0 \<le> n_lookback L" "0 \<le> idx" "idx < (2 * n_lookback L + 1) ^ 2 div 2"
    "0 \<le> k" "k < shape2 program"
  shows "surrounding_entry L program h w e idx k = Inr e
     \<or> (\<exists>i j. 0 \<le> i \<and> i < shape0 program \<and> 0 \<le> j \<and> j < shape1 program
           \<and> (i < h \<or> (i = h \<and> j < w))
           \<and> surrounding_entry L program h w e idx k = Inr (item program (i, j, k)))"
proof -
  let ?g = "2 * n_lookback L + 1"
  let ?i = "idx div ?g + h - n_lookback L"
  let ?j = "idx mod ?g + w - n_lookback L"
  have g: "0 < ?g" using assms(1) by simp
  have td: "int_truediv idx ?g = idx div ?g"
    using assms(2) g by (rule int_truediv_nonneg)
  show ?thesis
  proof (cases "?i < 0 \<or> ?j < 0 \<or> ?i \<ge> shape0 program \<or> ?j \<ge> shape1 program")
    case True
    then show ?thesis by (simp add: surrounding_entry_def Let_def td)
  next
    case False
    then have b: "0 \<le> ?i" "?i < shape0 program" "0 \<le> ?j" "?j < shape1 program" by auto
    have v: "surrounding_entry L program h w e idx k = Inr (item program (?i, ?j, k))"
      using False getitem_in_range [OF b assms(4,5)]
      by (simp add: surrounding_entry_def Let_def td)
    have "?i < h \<or> (?i = h \<and> ?j < w)"
      using causal_index [OF assms(1-3)] by auto
    then show ?thesis using b v by blast
  qed
qed

lemma previous_entry_causal:
  assumes "0 \<le> h" "h < shape0 program" "0 \<le> w" "w < shape1 program"
    "b < nB L" "shape2 program = nB L" "k < nB L - 1"
  shows "previous_entry L program h w b e k = Inr e
     \<or> (\<exists>k'. 0 \<le> k' \<and> k' < b \<and> previous_entry L program h w b e k = Inr (item program (h, w, k')))"
proof -
  let ?k = "k + (- (nB L - 1) + b)"
  show ?thesis
  proof (cases "?k < 0")
    case True
    then show ?thesis unfolding previous_entry_def Let_def by simp
  next
    case False
    then have r: "0 \<le> ?k" "?k < b" "?k < shape2 program" using assms(5,6,7) by simp_all
    have "previous_entry L program h w b e k = getitem program h w ?k"
      using False unfolding previous_entry_def Let_def by simp
    then have "previous_entry L program h w b e k = Inr (item program (h, w, ?k))"
      using getitem_in_range [OF assms(1-4) r(1,3)] by simp
    then show ?thesis using r(1,2) by blast
  qed
qed

lemma sequential_context_entries_causal:
  assumes "0 \<le> h" "h < shape0 program" "0 \<le> w" "w < shape1 program"
    "0 \<le> b" "b < nB L" "shape2 program = nB L" "0 \<le> n_lookback L"
  shows "\<exists>ctx. sequential_context_entries L program h w b e = Inr ctx
     \<and> int (length ctx) = nB L * ((2 * n_lookback L + 1) ^ 2 div 2) + (nB L - 1)
     \<and> list_all (\<lambda>v. v = e
          \<or> (\<exists>i j k. 0 \<le> i \<and> i < shape0 program \<and> 0 \<le> j \<and> j < shape1 program
                \<and> 0 \<le> k \<and> k < nB L
                \<and> (i < h \<or> (i = h \<and> j < w) \<or> (i = h \<and> j = w \<and> k < b))
                \<and> v = item program (i, j, k))) ctx"
proof -
  let ?P = "\<lambda>v. v = e
          \<or> (\<exists>i j k. 0 \<le> i \<and> i < shape0 program \<and> 0 \<le> j \<and> j < shape1 program
                \<and> 0 \<le> k \<and> k < nB L
                \<and> (i < h \<or> (i = h \<and> j < w) \<or> (i = h \<and> j = w \<and> k < b))
                \<and> v = item program (i, j, k))"
  let ?n = "int_truediv ((2 * n_lookback L + 1) ^ 2) 2"
  let ?cs = "concat (map (\<lambda>idx. map (\<lambda>k. surrounding_entry L program h w e idx k)
                                  (py_range (nB L)))
                        (py_range ?n))
            @ map (\<lambda>k. previous_entry L program h w b e k) (py_range (nB L - 1))"
  have n: "?n = (2 * n_lookback L + 1) ^ 2 div 2"
    by (rule int_truediv_nonneg) simp_all
  have each: "\<exists>v. c = Inr v \<and> ?P v" if "c \<in> set ?cs" for c
  proof -
    from that consider
      (s) idx k where "idx \<in> set (py_range ?n)" "k \<in> set (py_range (nB L))"
        "c = surrounding_entry L program h w e idx k"
    | (p) k where "k \<in> set (py_range (nB L - 1))"
        "c = previous_entry L program h w b e k"
      by auto
    then show ?thesis
    proof cases
      case s
      then have r: "0 \<le> idx" "idx < (2 * n_lookback L + 1) ^ 2 div 2" "0 \<le> k"
        "k < shape2 program" "k < nB L"
        using assms(7) by (simp_all add: set_py_range n)
      from surrounding_entry_causal [OF assms(8) r(1-4), of h w e] consider
        (edge) "c = Inr e"
      | (it) i j where "0 \<le> i" "i < shape0 program" "0 \<le> j" "j < shape1 program"
          "i < h \<or> (i = h \<and> j < w)" "c = Inr (item program (i, j, k))"
        unfolding s(3) by blast
      then show ?thesis
      proof cases
        case edge
        then show ?thesis by simp
      next
        case it
        then show ?thesis using r(3,5) by blast
      qed
    next
      case p
      then have r: "0 \<le> k" "k < nB L - 1" by (simp_all add: set_py_range)
      from previous_entry_causal [OF assms(1-4) assms(6,7) r(2), of e] consider
        (edge) "c = Inr e"
      | (it) k' where "0 \<le> k'" "k' < b" "c = Inr (item program (h, w, k'))"
        unfolding p(2) by blast
      then show ?thesis
      proof cases
        case edge
        then show ?thesis by simp
      next
        case it
        have "k' < nB L" using it(2) assms(6) by simp
        then show ?thesis using it assms(1-4) by blast
      qed
    qed
  qed
  then obtain vs where vs: "sequence ?cs = Inr vs" "length vs = length ?cs"
    using sequence_returns [of ?cs] by blast
  have "?P v" if "v \<in> set vs" for v
  proof -
    have "?cs = map Inr vs" using sequence_Inr_D [OF vs(1)] .
    then have "Inr v \<in> set ?cs" using that by simp
    from each [OF this] show ?thesis by simp
  qed
  then have all: "list_all ?P vs" by (simp add: list_all_iff)
  have nn: "0 \<le> (2 * n_lookback L + 1) ^ 2 div 2"
    by (simp add: pos_imp_zdiv_nonneg_iff)
  have "int (length ?cs) = nB L * ((2 * n_lookback L + 1) ^ 2 div 2) + (nB L - 1)"
    using assms(5,6) nn
    by (simp add: length_concat_map_map length_py_range n nat_mult_distrib)
  then show ?thesis
    using vs all by (simp add: sequential_context_entries_def Let_def)
qed

lemma concat_tensors_width:
  assumes "list_all (\<lambda>v. \<exists>t. v = Some t \<and> length t = S) ctx"
  shows "\<exists>t. concat_tensors ctx = Inr t \<and> length t = length ctx * S"
  using assms
proof (induction ctx)
  case Nil
  then show ?case by simp
next
  case (Cons v ctx)
  then obtain t where t: "v = Some t" "length t = S" by auto
  from Cons obtain r where r: "concat_tensors ctx = Inr r" "length r = length ctx * S" by auto
  show ?case by (simp add: t r)
qed

lemma concat_tensors_replicate:
  "concat_tensors (replicate n (Some t)) = Inr (concat (replicate n t))"
  by (induction n) simp_all

lemma list_all_eq_replicate: "list_all (\<lambda>v. v = e) l \<Longrightarrow> l = replicate (length l) e"
  by (induction l) simp_all

section \<open>Range of the box builder's outputs\<close>

text \<open>
  Claim C5. When both assertions of the box builder pass and the parameter tensor splits
  into its eight parts, the builder returns, every element of \<open>cell_y\<close> and \<open>cell_x\<close>
  lies in \<open>[min_yx, max_yx]\<close>, every element of \<open>height\<close> and \<open>width\<close> lies in
  \<open>[min_hw, max_hw]\<close>, and each of the four is the sigmoid of the sampled logit clipped
  to \<open>[-10, 10]\<close>, rescaled by \<open>(max - min) * s + min\<close>.
\<close>

theorem build_box_ranges:
  assumes "min_yx L < max_yx L" "min_hw L < max_hw L" "8 dvd length box_params"
  shows "\<exists>r. build_box L rnd box_params hw cell = Inr r
    \<and> list_all (\<lambda>v. min_yx L \<le> v \<and> v \<le> max_yx L) (cell_y r)
    \<and> list_all (\<lambda>v. min_yx L \<le> v \<and> v \<le> max_yx L) (cell_x r)
    \<and> list_all (\<lambda>v. min_hw L \<le> v \<and> v \<le> max_hw L) (height r)
    \<and> list_all (\<lambda>v. min_hw L \<le> v \<and> v \<le> max_hw L) (width r)
    \<and> cell_y r = sadd (smul (max_yx L - min_yx L) (tf_sigmoid (tf_clip_by_value
         (normal_sample (eps_cell_y rnd) (cell_y_logit_mean r) (cell_y_logit_std r))
         (-10) 10))) (min_yx L)
    \<and> cell_x r = sadd (smul (max_yx L - min_yx L) (tf_sigmoid (tf_clip_by_value
         (normal_sample (eps_cell_x rnd) (cell_x_logit_mean r) (cell_x_logit_std r))
         (-10) 10))) (min_yx L)
    \<and> height r = sadd (smul (max_hw L - min_hw L) (tf_sigmoid (tf_clip_by_value
         (normal_sample (eps_height rnd) (height_logit_mean r) (height_logit_std r))
         (-10) 10))) (min_hw L)
    \<and> width r = sadd (smul (max_hw L - min_hw L) (tf_sigmoid (tf_clip_by_value
         (normal_sample (eps_width rnd) (width_logit_mean r) (width_logit_std r))
         (-10) 10))) (min_hw L)"
proof -
  obtain r where r: "build_box L rnd box_params hw cell = Inr r"
    using build_box_returns [OF assms] by blast
  note d = build_box_InrD [OF r]
  have cy: "list_all (\<lambda>v. min_yx L \<le> v \<and> v \<le> max_yx L) (cell_y r)"
    using d list_all_affine_sigmoid [OF assms(1)] by simp
  have cx: "list_all (\<lambda>v. min_yx L \<le> v \<and> v \<le> max_yx L) (cell_x r)"
    using d list_all_affine_sigmoid [OF assms(1)] by simp
  have hh: "list_all (\<lambda>v. min_hw L \<le> v \<and> v \<le> max_hw L) (height r)"
    using d list_all_affine_sigmoid [OF assms(2)] by simp
  have ww: "list_all (\<lambda>v. min_hw L \<le> v \<and> v \<le> max_hw L) (width r)"
    using d list_all_affine_sigmoid [OF assms(2)] by simp
  show ?thesis using r cy cx hh ww d by auto
qed

theorem build_box_ranges_witness:
  "min_yx example_layer < max_yx example_layer
   \<and> min_hw example_layer < max_hw example_layer
   \<and> 8 dvd length [0, 0, 0, 0, 0, 0, 0, 0 :: real]
   \<and> (\<exists>r. build_box example_layer example_noise [0, 0, 0, 0, 0, 0, 0, 0] (Some (1, 2)) (0, 0)
            = Inr r
        \<and> list_all (\<lambda>v. 0 \<le> v \<and> v \<le> 1) (cell_y r)
        \<and> list_all (\<lambda>v. 0 \<le> v \<and> v \<le> 1) (cell_x r)
        \<and> list_all (\<lambda>v. 0 \<le> v \<and> v \<le> 1) (height r)
        \<and> list_all (\<lambda>v. 0 \<le> v \<and> v \<le> 1) (width r))"
proof -
  have h1: "min_yx example_layer < max_yx example_layer"
    by (simp add: example_layer_def)
  have h2: "min_hw example_layer < max_hw example_layer"
    by (simp add: example_layer_def)
  have h3: "8 dvd length [0, 0, 0, 0, 0, 0, 0, 0 :: real]" by (simp add: numeral_eq_Suc)
  have e: "min_yx example_layer = 0" "max_yx example_layer = 1"
          "min_hw example_layer = 0" "max_hw example_layer = 1"
    by (simp_all add: example_layer_def)
  show ?thesis
    using h1 h2 h3
      build_box_ranges [OF h1 h2 h3, of example_noise "Some (1, 2)" "(0, 0)"]
    unfolding e by blast
qed

section \<open>The normalized box\<close>

text \<open>
  Claim C6. When the box builder returns, for the cell \<open>(h, w)\<close> (the argument \<open>hw\<close>, or
  the grid position of the element when \<open>hw\<close> is absent) the box centre normalized to the
  anchor box is \<open>yt = (pixels_per_cell_y * (cell_y + h) + offset_y) / anchor_h\<close> and
  \<open>xt = (pixels_per_cell_x * (cell_x + w) + offset_x) / anchor_w\<close>, with \<open>ys = height\<close>
  and \<open>xs = width\<close>; and it returns whenever both assertions pass.
\<close>

theorem build_box_normalized_box:
  assumes "min_yx L < max_yx L" "min_hw L < max_hw L" "8 dvd length box_params"
  shows "\<exists>r. build_box L rnd box_params hw cell = Inr r
    \<and> yt r = map (\<lambda>c. (fst (pixels_per_cell L)
                          * (c + (case hw of None \<Rightarrow> real (fst cell) | Some p \<Rightarrow> fst p))
                        + fst (grid_offset L)) / fst (anchor_box L)) (cell_y r)
    \<and> xt r = map (\<lambda>c. (snd (pixels_per_cell L)
                          * (c + (case hw of None \<Rightarrow> real (snd cell) | Some p \<Rightarrow> snd p))
                        + snd (grid_offset L)) / snd (anchor_box L)) (cell_x r)
    \<and> ys r = height r \<and> xs r = width r
    \<and> normalized_box r = yt r @ xt r @ ys r @ xs r"
proof -
  obtain r where r: "build_box L rnd box_params hw cell = Inr r"
    using build_box_returns [OF assms] by blast
  note d = build_box_InrD [OF r]
  have y: "yt r = map (\<lambda>c. (fst (pixels_per_cell L)
                          * (c + (case hw of None \<Rightarrow> real (fst cell) | Some p \<Rightarrow> fst p))
                        + fst (grid_offset L)) / fst (anchor_box L)) (cell_y r)"
    using d by (simp add: sdivide_def sadd_def smul_def)
  have x: "xt r = map (\<lambda>c. (snd (pixels_per_cell L)
                          * (c + (case hw of None \<Rightarrow> real (snd cell) | Some p \<Rightarrow> snd p))
                        + snd (grid_offset L)) / snd (anchor_box L)) (cell_x r)"
    using d by (simp add: sdivide_def sadd_def smul_def)
  show ?thesis using r y x d by blast
qed

theorem build_box_normalized_box_witness:
  "min_yx example_layer < max_yx example_layer
   \<and> min_hw example_layer < max_hw example_layer
   \<and> 8 dvd length [0, 0, 0, 0, 0, 0, 0, 0 :: real]
   \<and> (\<exists>r. build_box example_layer example_noise [0, 0, 0, 0, 0, 0, 0, 0] (Some (1, 2)) (0, 0)
            = Inr r
        \<and> yt r = map (\<lambda>c. (12 * (c + 1) + 0) / 48) (cell_y r)
        \<and> xt r = map (\<lambda>c. (12 * (c + 2) + 0) / 48) (cell_x r)
        \<and> ys r = height r \<and> xs r = width r
        \<and> normalized_box r = yt r @ xt r @ ys r @ xs r)"
proof -
  have h1: "min_yx example_layer < max_yx example_layer"
    by (simp add: example_layer_def)
  have h2: "min_hw example_layer < max_hw example_layer"
    by (simp add: example_layer_def)
  have h3: "8 dvd length [0, 0, 0, 0, 0, 0, 0, 0 :: real]" by (simp add: numeral_eq_Suc)
  have e: "pixels_per_cell example_layer = (12, 12)" "grid_offset example_layer = (0, 0)"
          "anchor_box example_layer = (48, 48)"
    by (simp_all add: example_layer_def)
  have "\<exists>r. build_box example_layer example_noise [0, 0, 0, 0, 0, 0, 0, 0] (Some (1, 2)) (0, 0)
            = Inr r
        \<and> yt r = map (\<lambda>c. (12 * (c + 1) + 0) / 48) (cell_y r)
        \<and> xt r = map (\<lambda>c. (12 * (c + 2) + 0) / 48) (cell_x r)
        \<and> ys r = height r \<and> xs r = width r
        \<and> normalized_box r = yt r @ xt r @ ys r @ xs r"
    using build_box_normalized_box [OF h1 h2 h3, of example_noise "Some (1, 2)" "(0, 0)"]
    unfolding e by simp
  then show ?thesis using h1 h2 h3 by blast
qed

section \<open>Range of the presence builder's outputs\<close>

text \<open>
  Claim C4. For a nonzero temperature \<open>obj_temp\<close>, every input logit tensor and every
  relaxation sample, the presence builder returns one presence score per input logit,
  each in \<open>[0, 1]\<close>, and one \<open>obj_log_odds\<close> per input logit, each in \<open>[-10, 10]\<close>.
\<close>

theorem build_obj_presence_bounds:
  assumes "obj_temp L \<noteq> 0"
  shows "length (obj (build_obj L sample obj_logit)) = length obj_logit
       \<and> list_all (\<lambda>v. 0 \<le> v \<and> v \<le> 1) (obj (build_obj L sample obj_logit))
       \<and> length (obj_log_odds (build_obj L sample obj_logit)) = length obj_logit
       \<and> list_all (\<lambda>v. - 10 \<le> v \<and> v \<le> 10) (obj_log_odds (build_obj L sample obj_logit))"
  by (simp add: build_obj_simp list_all_tf_sigmoid list_all_tf_clip length_tensor_ops)

theorem build_obj_presence_bounds_witness:
  "obj_temp example_layer \<noteq> 0
   \<and> length (obj (build_obj example_layer (concrete_sample example_noise) [1000]))
       = length [1000 :: real]
   \<and> list_all (\<lambda>v. 0 \<le> v \<and> v \<le> 1)
       (obj (build_obj example_layer (concrete_sample example_noise) [1000]))
   \<and> length (obj_log_odds (build_obj example_layer (concrete_sample example_noise) [1000]))
       = length [1000 :: real]
   \<and> list_all (\<lambda>v. - 10 \<le> v \<and> v \<le> 10)
       (obj_log_odds (build_obj example_layer (concrete_sample example_noise) [1000]))"
  using build_obj_presence_bounds [of example_layer "concrete_sample example_noise" "[1000]"]
  by (simp add: example_layer_def)

lemma get_sequential_context_returns:
  assumes "0 \<le> h" "h < shape0 program" "0 \<le> w" "w < shape1 program"
    "0 \<le> b" "b < nB L" "shape2 program = nB L" "0 \<le> n_lookback L"
    and "length edge_element = S"
    and "\<And>i j k. \<lbrakk>0 \<le> i; i < shape0 program; 0 \<le> j; j < shape1 program; 0 \<le> k; k < nB L;
            i < h \<or> (i = h \<and> j < w) \<or> (i = h \<and> j = w \<and> k < b)\<rbrakk>
          \<Longrightarrow> \<exists>t. item program (i, j, k) = Some t \<and> length t = S"
  shows "\<exists>ctx t. sequential_context_entries L program h w b (Some edge_element) = Inr ctx
     \<and> int (length ctx) = nB L * ((2 * n_lookback L + 1) ^ 2 div 2) + (nB L - 1)
     \<and> get_sequential_context L program h w b edge_element = Inr t
     \<and> int (length t) = (nB L * ((2 * n_lookback L + 1) ^ 2 div 2) + (nB L - 1)) * int S"
proof -
  from sequential_context_entries_causal [OF assms(1-8), of "Some edge_element"]
  obtain ctx where
    c: "sequential_context_entries L program h w b (Some edge_element) = Inr ctx"
    and n: "int (length ctx) = nB L * ((2 * n_lookback L + 1) ^ 2 div 2) + (nB L - 1)"
    and a: "list_all (\<lambda>v. v = Some edge_element
          \<or> (\<exists>i j k. 0 \<le> i \<and> i < shape0 program \<and> 0 \<le> j \<and> j < shape1 program
                \<and> 0 \<le> k \<and> k < nB L
                \<and> (i < h \<or> (i = h \<and> j < w) \<or> (i = h \<and> j = w \<and> k < b))
                \<and> v = item program (i, j, k))) ctx"
    by blast
  have "list_all (\<lambda>v. \<exists>t. v = Some t \<and> length t = S) ctx"
    using a assms(9,10) unfolding list_all_iff by metis
  from concat_tensors_width [OF this] obtain t where
    t: "concat_tensors ctx = Inr t" "length t = length ctx * S" by blast
  have "get_sequential_context L program h w b edge_element = Inr t"
    using t by (cases ctx) (simp_all add: get_sequential_context_def c tf_concat_def)
  moreover have "int (length t)
      = (nB L * ((2 * n_lookback L + 1) ^ 2 div 2) + (nB L - 1)) * int S"
    using t(2) n by simp
  ultimately show ?thesis using c n by blast
qed

section \<open>Width of the sequential context\<close>

text \<open>
  Claim C3. For every cell-slot \<open>(h, w, b)\<close> of a program array of shape \<open>(H, W, B)\<close> and
  lookback radius \<open>L \<ge> 0\<close>, the list \<^verbatim>\<open>context\<close> has exactly
  \<open>B * floor((2L+1)^2 / 2) + (B - 1)\<close> entries, whatever the position. When the edge
  element and the entries already stored at the positions that precede \<open>(h, w, b)\<close> in
  loop order all have width \<open>S\<close>, the function returns their concatenation, of width
  that count times \<open>S\<close>.
\<close>

theorem sequential_context_width:
  assumes "0 \<le> h" "h < shape0 program" "0 \<le> w" "w < shape1 program"
    "0 \<le> b" "b < nB L" "shape2 program = nB L" "0 \<le> n_lookback L"
    and "length edge_element = S"
    and "\<And>i j k. \<lbrakk>0 \<le> i; i < shape0 program; 0 \<le> j; j < shape1 program; 0 \<le> k; k < nB L;
            i < h \<or> (i = h \<and> j < w) \<or> (i = h \<and> j = w \<and> k < b)\<rbrakk>
          \<Longrightarrow> \<exists>t. item program (i, j, k) = Some t \<and> length t = S"
  shows "\<exists>ctx t. sequential_context_entries L program h w b (Some edge_element) = Inr ctx
     \<and> int (length ctx) = nB L * ((2 * n_lookback L + 1) ^ 2 div 2) + (nB L - 1)
     \<and> get_sequential_context L program h w b edge_element = Inr t
     \<and> int (length t) = (nB L * ((2 * n_lookback L + 1) ^ 2 div 2) + (nB L - 1)) * int S"
  using get_sequential_context_returns [OF assms] .

theorem sequential_context_width_witness:
  "\<exists>ctx t. sequential_context_entries example_layer example_program 1 1 1
               (Some (replicate 8 1)) = Inr ctx
     \<and> int (length ctx) = 9
     \<and> get_sequential_context example_layer example_program 1 1 1 (replicate 8 1) = Inr t
     \<and> int (length t) = 72"
  using sequential_context_width [of 1 example_program 1 1 example_layer "replicate 8 1" 8]
  by (simp add: example_layer_def example_program_def)

section \<open>The edge element at the boundary\<close>

text \<open>
  The value of every entry: entry \<open>idx * B + k\<close> of the surrounding part is read at row
  \<open>idx div (2L+1) + h - L\<close>, column \<open>idx mod (2L+1) + w - L\<close> and slot \<open>k\<close>, and is the edge
  element when that row or column is outside the grid; entry \<open>k\<close> of the earlier-slot part
  is read at slot \<open>k + b - (B - 1)\<close> of the cell itself, and is the edge element when that
  slot index is negative.
\<close>

lemma sequence_map_Inr: "sequence (map Inr vs) = Inr vs"
  by (induction vs) simp_all

lemma surrounding_entry_value:
  assumes "0 \<le> n_lookback L" "0 \<le> idx" "0 \<le> k" "k < shape2 program"
  shows "surrounding_entry L program h w e idx k
     = Inr (if idx div (2 * n_lookback L + 1) + h - n_lookback L < 0
               \<or> idx mod (2 * n_lookback L + 1) + w - n_lookback L < 0
               \<or> idx div (2 * n_lookback L + 1) + h - n_lookback L \<ge> shape0 program
               \<or> idx mod (2 * n_lookback L + 1) + w - n_lookback L \<ge> shape1 program
            then e
            else item program (idx div (2 * n_lookback L + 1) + h - n_lookback L,
                               idx mod (2 * n_lookback L + 1) + w - n_lookback L, k))"
proof -
  have g: "0 < 2 * n_lookback L + 1" using assms(1) by simp
  have td: "int_truediv idx (2 * n_lookback L + 1) = idx div (2 * n_lookback L + 1)"
    using assms(2) g by (rule int_truediv_nonneg)
  show ?thesis
    using assms(3,4) by (simp add: surrounding_entry_def Let_def td getitem_in_range)
qed

lemma previous_entry_value:
  assumes "0 \<le> h" "h < shape0 program" "0 \<le> w" "w < shape1 program"
    "b < nB L" "shape2 program = nB L" "k < nB L - 1"
  shows "previous_entry L program h w b e k
     = Inr (if k + (b - (nB L - 1)) < 0 then e
            else item program (h, w, k + (b - (nB L - 1))))"
proof -
  have eq: "k + (- (nB L - 1) + b) = k + (b - (nB L - 1))" by simp
  show ?thesis
  proof (cases "k + (b - (nB L - 1)) < 0")
    case True
    then show ?thesis unfolding previous_entry_def Let_def eq by simp
  next
    case False
    then have r: "0 \<le> k + (b - (nB L - 1))" "k + (b - (nB L - 1)) < shape2 program"
      using assms(5,6,7) by simp_all
    show ?thesis
      unfolding previous_entry_def Let_def eq
      using False getitem_in_range [OF assms(1-4) r] by simp
  qed
qed

lemma concat_map_map_Inr:
  "concat (map (\<lambda>i. map (\<lambda>k. Inr (f i k)) ks) is) = map Inr (concat (map (\<lambda>i. map (f i) ks) is))"
  by (induction "is") simp_all

lemma sequential_context_entries_value:
  assumes "0 \<le> h" "h < shape0 program" "0 \<le> w" "w < shape1 program"
    "0 \<le> b" "b < nB L" "shape2 program = nB L" "0 \<le> n_lookback L"
  shows "sequential_context_entries L program h w b e
     = Inr (concat (map (\<lambda>idx. map (\<lambda>k.
                if idx div (2 * n_lookback L + 1) + h - n_lookback L < 0
                   \<or> idx mod (2 * n_lookback L + 1) + w - n_lookback L < 0
                   \<or> idx div (2 * n_lookback L + 1) + h - n_lookback L \<ge> shape0 program
                   \<or> idx mod (2 * n_lookback L + 1) + w - n_lookback L \<ge> shape1 program
                then e
                else item program (idx div (2 * n_lookback L + 1) + h - n_lookback L,
                                   idx mod (2 * n_lookback L + 1) + w - n_lookback L, k))
              (py_range (nB L)))
            (py_range ((2 * n_lookback L + 1) ^ 2 div 2)))
          @ map (\<lambda>k. if k + (b - (nB L - 1)) < 0 then e
                      else item program (h, w, k + (b - (nB L - 1))))
              (py_range (nB L - 1)))"
proof -
  let ?v = "\<lambda>idx k.
                if idx div (2 * n_lookback L + 1) + h - n_lookback L < 0
                   \<or> idx mod (2 * n_lookback L + 1) + w - n_lookback L < 0
                   \<or> idx div (2 * n_lookback L + 1) + h - n_lookback L \<ge> shape0 program
                   \<or> idx mod (2 * n_lookback L + 1) + w - n_lookback L \<ge> shape1 program
                then e
                else item program (idx div (2 * n_lookback L + 1) + h - n_lookback L,
                                   idx mod (2 * n_lookback L + 1) + w - n_lookback L, k)"
  let ?p = "\<lambda>k. if k + (b - (nB L - 1)) < 0 then e
                      else item program (h, w, k + (b - (nB L - 1)))"
  let ?n = "(2 * n_lookback L + 1) ^ 2 div 2"
  have n: "int_truediv ((2 * n_lookback L + 1) ^ 2) 2 = ?n"
    by (rule int_truediv_nonneg) simp_all
  have s: "map (\<lambda>idx. map (\<lambda>k. surrounding_entry L program h w e idx k) (py_range (nB L)))
               (py_range ?n)
         = map (\<lambda>idx. map (\<lambda>k. Inr (?v idx k)) (py_range (nB L))) (py_range ?n)"
  proof (intro map_cong refl)
    fix idx k
    assume "idx \<in> set (py_range ?n)" "k \<in> set (py_range (nB L))"
    then have r: "0 \<le> idx" "0 \<le> k" "k < shape2 program"
      using assms(7) by (simp_all add: set_py_range)
    show "surrounding_entry L program h w e idx k = Inr (?v idx k)"
      by (rule surrounding_entry_value [OF assms(8) r])
  qed
  have p: "map (\<lambda>k. previous_entry L program h w b e k) (py_range (nB L - 1))
         = map (\<lambda>k. Inr (?p k)) (py_range (nB L - 1))"
  proof (intro map_cong refl)
    fix k
    assume "k \<in> set (py_range (nB L - 1))"
    then have "k < nB L - 1" by (simp add: set_py_range)
    then show "previous_entry L program h w b e k = Inr (?p k)"
      by (rule previous_entry_value [OF assms(1-4) assms(6,7)])
  qed
  have "sequential_context_entries L program h w b e
      = sequence (map Inr (concat (map (\<lambda>idx. map (?v idx) (py_range (nB L))) (py_range ?n))
                           @ map ?p (py_range (nB L - 1))))"
    unfolding sequential_context_entries_def Let_def n s p
    by (simp add: concat_map_map_Inr comp_def)
  then show ?thesis by (simp only: sequence_map_Inr)
qed

lemma nth_concat_map_map:
  "i < length is \<Longrightarrow> k < length ks \<Longrightarrow>
   concat (map (\<lambda>i. map (f i) ks) is) ! (i * length ks + k) = f (is ! i) (ks ! k)"
proof (induction "is" arbitrary: i)
  case Nil
  then show ?case by simp
next
  case (Cons a as)
  show ?case
  proof (cases i)
    case 0
    then show ?thesis using Cons.prems(2) by (simp add: nth_append)
  next
    case (Suc i')
    then have "i' < length as" using Cons.prems(1) by simp
    from Cons.IH [OF this Cons.prems(2)] show ?thesis
      unfolding Suc by (simp add: nth_append)
  qed
qed

lemma nth_py_range: "0 \<le> i \<Longrightarrow> i < n \<Longrightarrow> py_range n ! nat i = i"
  by (simp add: py_range_def)

text \<open>
  Claim C7. The sequential context of a cell-slot \<open>(h, w, b)\<close> is the list written out
  below: the entry for a surrounding location whose row or column is outside the grid is
  the edge element, the entry for an earlier slot whose index is negative is the edge
  element, and every other entry is the program entry at the position it refers to.
  Hence the entry at list position \<open>idx * B + k\<close> is the edge element whenever location
  \<open>idx\<close> is out of bounds, the entry at list position \<open>((2L+1)^2 div 2) * B + k\<close> is the edge
  element whenever slot \<open>k + b - (B - 1)\<close> is negative, and every entry is the edge element
  or the program entry of a position inside the grid that precedes \<open>(h, w, b)\<close> in loop
  order. For the cell-slot \<open>(0, 0, 0)\<close> every entry, of the surrounding locations and of
  the earlier slots, is the edge element.
\<close>

theorem edge_element_at_boundary:
  assumes "0 \<le> h" "h < shape0 program" "0 \<le> w" "w < shape1 program"
    "0 \<le> b" "b < nB L" "shape2 program = nB L" "0 \<le> n_lookback L"
  shows "sequential_context_entries L program h w b edge_element
     = Inr (concat (map (\<lambda>idx. map (\<lambda>k.
                if idx div (2 * n_lookback L + 1) + h - n_lookback L < 0
                   \<or> idx mod (2 * n_lookback L + 1) + w - n_lookback L < 0
                   \<or> idx div (2 * n_lookback L + 1) + h - n_lookback L \<ge> shape0 program
                   \<or> idx mod (2 * n_lookback L + 1) + w - n_lookback L \<ge> shape1 program
                then edge_element
                else item program (idx div (2 * n_lookback L + 1) + h - n_lookback L,
                                   idx mod (2 * n_lookback L + 1) + w - n_lookback L, k))
              (py_range (nB L)))
            (py_range ((2 * n_lookback L + 1) ^ 2 div 2)))
          @ map (\<lambda>k. if k + (b - (nB L - 1)) < 0 then edge_element
                      else item program (h, w, k + (b - (nB L - 1))))
              (py_range (nB L - 1)))
   \<and> (\<exists>ctx. sequential_context_entries L program h w b edge_element = Inr ctx
        \<and> (\<forall>idx k. 0 \<le> idx \<and> idx < (2 * n_lookback L + 1) ^ 2 div 2 \<and> 0 \<le> k \<and> k < nB L
              \<and> (idx div (2 * n_lookback L + 1) + h - n_lookback L < 0
                 \<or> idx mod (2 * n_lookback L + 1) + w - n_lookback L < 0
                 \<or> idx div (2 * n_lookback L + 1) + h - n_lookback L \<ge> shape0 program
                 \<or> idx mod (2 * n_lookback L + 1) + w - n_lookback L \<ge> shape1 program)
              \<longrightarrow> ctx ! nat (idx * nB L + k) = edge_element)
        \<and> (\<forall>k. 0 \<le> k \<and> k < nB L - 1 \<and> k + (b - (nB L - 1)) < 0
              \<longrightarrow> ctx ! nat ((2 * n_lookback L + 1) ^ 2 div 2 * nB L + k) = edge_element)
        \<and> list_all (\<lambda>v. v = edge_element
          \<or> (\<exists>i j k. 0 \<le> i \<and> i < shape0 program \<and> 0 \<le> j \<and> j < shape1 program
                \<and> 0 \<le> k \<and> k < nB L
                \<and> (i < h \<or> (i = h \<and> j < w) \<or> (i = h \<and> j = w \<and> k < b))
                \<and> v = item program (i, j, k))) ctx)
   \<and> sequential_context_entries L program 0 0 0 edge_element
         = Inr (replicate (nat (nB L * ((2 * n_lookback L + 1) ^ 2 div 2) + (nB L - 1)))
                  edge_element)"
proof -
  let ?g = "2 * n_lookback L + 1"
  let ?n = "?g ^ 2 div 2"
  let ?v = "\<lambda>idx k.
                if idx div ?g + h - n_lookback L < 0
                   \<or> idx mod ?g + w - n_lookback L < 0
                   \<or> idx div ?g + h - n_lookback L \<ge> shape0 program
                   \<or> idx mod ?g + w - n_lookback L \<ge> shape1 program
                then edge_element
                else item program (idx div ?g + h - n_lookback L,
                                   idx mod ?g + w - n_lookback L, k)"
  let ?p = "\<lambda>k. if k + (b - (nB L - 1)) < 0 then edge_element
                      else item program (h, w, k + (b - (nB L - 1)))"
  let ?s = "concat (map (\<lambda>idx. map (?v idx) (py_range (nB L))) (py_range ?n))"
  let ?ctx = "?s @ map ?p (py_range (nB L - 1))"
  have val: "sequential_context_entries L program h w b edge_element = Inr ?ctx"
    by (rule sequential_context_entries_value [OF assms])
  have nn: "0 \<le> ?n" by (simp add: pos_imp_zdiv_nonneg_iff)
  have ls: "length ?s = nat ?n * nat (nB L)"
    by (simp add: length_concat_map_map length_py_range)
  have surr: "?ctx ! nat (idx * nB L + k) = ?v idx k"
    if "0 \<le> idx" "idx < ?n" "0 \<le> k" "k < nB L" for idx k
  proof -
    have i: "nat idx < length (py_range ?n)" "nat k < length (py_range (nB L))"
      using that by (simp_all add: length_py_range)
    have e: "nat (idx * nB L + k) = nat idx * length (py_range (nB L)) + nat k"
      using that by (simp add: length_py_range nat_add_distrib nat_mult_distrib)
    have "nat idx * nat (nB L) + nat k < nat ?n * nat (nB L)"
    proof -
      have "nat idx + 1 \<le> nat ?n" using that(1,2) by simp
      then have m: "(nat idx + 1) * nat (nB L) \<le> nat ?n * nat (nB L)"
        by (rule mult_le_mono1)
      have "nat k < nat (nB L)" using that(3,4) by simp
      then have "nat idx * nat (nB L) + nat k < nat idx * nat (nB L) + nat (nB L)"
        by simp
      also have "\<dots> = (nat idx + 1) * nat (nB L)" by simp
      finally have "nat idx * nat (nB L) + nat k < (nat idx + 1) * nat (nB L)" .
      then show ?thesis using m by (rule less_le_trans)
    qed
    then have lt: "nat (idx * nB L + k) < length ?s"
      unfolding e ls by (simp add: length_py_range)
    have "?ctx ! nat (idx * nB L + k) = ?s ! nat (idx * nB L + k)"
      using lt by (simp only: nth_append if_True)
    also have "\<dots> = ?v (py_range ?n ! nat idx) (py_range (nB L) ! nat k)"
      unfolding e by (rule nth_concat_map_map [OF i])
    also have "\<dots> = ?v idx k"
      using that by (simp only: nth_py_range)
    finally show ?thesis .
  qed
  have prev: "?ctx ! nat (?n * nB L + k) = ?p k" if "0 \<le> k" "k < nB L - 1" for k
  proof -
    have "nat (?n * nB L + k) = nat ?n * nat (nB L) + nat k"
      using that nn assms(5,6) by (simp add: nat_add_distrib nat_mult_distrib)
    then have e: "nat (?n * nB L + k) = length ?s + nat k"
      by (simp only: ls)
    have "nat k < length (py_range (nB L - 1))" using that by (simp add: length_py_range)
    then have "?ctx ! nat (?n * nB L + k) = ?p (py_range (nB L - 1) ! nat k)"
      unfolding e by (simp only: nth_append_length_plus nth_map)
    then show ?thesis using that by (simp only: nth_py_range)
  qed
  have a: "\<forall>idx k. 0 \<le> idx \<and> idx < ?n \<and> 0 \<le> k \<and> k < nB L
              \<and> (idx div ?g + h - n_lookback L < 0
                 \<or> idx mod ?g + w - n_lookback L < 0
                 \<or> idx div ?g + h - n_lookback L \<ge> shape0 program
                 \<or> idx mod ?g + w - n_lookback L \<ge> shape1 program)
              \<longrightarrow> ?ctx ! nat (idx * nB L + k) = edge_element"
    using surr by simp
  have b: "\<forall>k. 0 \<le> k \<and> k < nB L - 1 \<and> k + (b - (nB L - 1)) < 0
              \<longrightarrow> ?ctx ! nat (?n * nB L + k) = edge_element"
    using prev by simp
  from sequential_context_entries_causal [OF assms, of edge_element] obtain ctx where
    c: "sequential_context_entries L program h w b edge_element = Inr ctx"
    and la: "list_all (\<lambda>v. v = edge_element
          \<or> (\<exists>i j k. 0 \<le> i \<and> i < shape0 program \<and> 0 \<le> j \<and> j < shape1 program
                \<and> 0 \<le> k \<and> k < nB L
                \<and> (i < h \<or> (i = h \<and> j < w) \<or> (i = h \<and> j = w \<and> k < b))
                \<and> v = item program (i, j, k))) ctx"
    by blast
  have cc: "ctx = ?ctx" using c val by simp
  have z: "(0::int) \<le> 0" "0 < shape0 program" "0 < shape1 program" "0 < nB L"
    using assms by simp_all
  from sequential_context_entries_causal [OF z(1,2) z(1,3) z(1,4) assms(7,8), of edge_element]
  obtain ctx0 where
    c0: "sequential_context_entries L program 0 0 0 edge_element = Inr ctx0"
    and n0: "int (length ctx0) = nB L * (?g ^ 2 div 2) + (nB L - 1)"
    and a0: "list_all (\<lambda>v. v = edge_element
          \<or> (\<exists>i j k. 0 \<le> i \<and> i < shape0 program \<and> 0 \<le> j \<and> j < shape1 program
                \<and> 0 \<le> k \<and> k < nB L
                \<and> (i < 0 \<or> (i = 0 \<and> j < 0) \<or> (i = 0 \<and> j = 0 \<and> k < 0))
                \<and> v = item program (i, j, k))) ctx0"
    by blast
  have "list_all (\<lambda>v. v = edge_element) ctx0"
    using a0 unfolding list_all_iff by auto
  then have "ctx0 = replicate (length ctx0) edge_element" by (rule list_all_eq_replicate)
  moreover have "length ctx0 = nat (nB L * (?g ^ 2 div 2) + (nB L - 1))"
    using n0 by simp
  ultimately have zero: "sequential_context_entries L program 0 0 0 edge_element
         = Inr (replicate (nat (nB L * (?g ^ 2 div 2) + (nB L - 1))) edge_element)"
    using c0 by simp
  have mid: "\<exists>ctx. sequential_context_entries L program h w b edge_element = Inr ctx
        \<and> (\<forall>idx k. 0 \<le> idx \<and> idx < ?n \<and> 0 \<le> k \<and> k < nB L
              \<and> (idx div ?g + h - n_lookback L < 0
                 \<or> idx mod ?g + w - n_lookback L < 0
                 \<or> idx div ?g + h - n_lookback L \<ge> shape0 program
                 \<or> idx mod ?g + w - n_lookback L \<ge> shape1 program)
              \<longrightarrow> ctx ! nat (idx * nB L + k) = edge_element)
        \<and> (\<forall>k. 0 \<le> k \<and> k < nB L - 1 \<and> k + (b - (nB L - 1)) < 0
              \<longrightarrow> ctx ! nat (?n * nB L + k) = edge_element)
        \<and> list_all (\<lambda>v. v = edge_element
          \<or> (\<exists>i j k. 0 \<le> i \<and> i < shape0 program \<and> 0 \<le> j \<and> j < shape1 program
                \<and> 0 \<le> k \<and> k < nB L
                \<and> (i < h \<or> (i = h \<and> j < w) \<or> (i = h \<and> j = w \<and> k < b))
                \<and> v = item program (i, j, k))) ctx"
    using val a b la [unfolded cc] by (intro exI [of _ ?ctx] conjI)
  show ?thesis using val mid zero by (intro conjI)
qed

theorem edge_element_at_boundary_witness:
  "sequential_context_entries example_layer example_program 0 0 0 (Some [7])
     = Inr (replicate 9 (Some [7]))
   \<and> sequential_context_entries example_layer numbered_program 1 0 0 (Some [- 1])
     = Inr [Some [- 1], Some [- 1], Some [0], Some [1], Some [10], Some [11],
            Some [- 1], Some [- 1], Some [- 1]]"
proof -
  have p: "(0::int) \<le> 0" "0 < shape0 example_program" "0 < shape1 example_program"
    "0 < nB example_layer" "shape2 example_program = nB example_layer"
    "0 \<le> n_lookback example_layer"
    by (simp_all add: example_layer_def example_program_def)
  have q: "(0::int) \<le> 1" "1 < shape0 numbered_program" "(0::int) \<le> 0"
    "0 < shape1 numbered_program" "0 < nB example_layer"
    "shape2 numbered_program = nB example_layer" "0 \<le> n_lookback example_layer"
    by (simp_all add: example_layer_def numbered_program_def)
  have a: "sequential_context_entries example_layer example_program 0 0 0 (Some [7])
     = Inr (replicate 9 (Some [7]))"
    using edge_element_at_boundary [OF p(1,2) p(1,3) p(1,4) p(5,6), of "Some [7]",
            THEN conjunct2, THEN conjunct2]
    by (simp add: example_layer_def)
  have b: "sequential_context_entries example_layer numbered_program 1 0 0 (Some [- 1])
     = Inr [Some [- 1], Some [- 1], Some [0], Some [1], Some [10], Some [11],
            Some [- 1], Some [- 1], Some [- 1]]"
    using edge_element_at_boundary [OF q(1,2) q(3,4) q(3,5) q(6,7), of "Some [- 1]",
            THEN conjunct1]
    by (simp add: example_layer_def numbered_program_def py_range_def upto_rec1)
  show ?thesis using a b by simp
qed

section \<open>Rounding to float32\<close>

















section \<open>The training-wheels blend\<close>




section \<open>Where the box ranges are checked\<close>

lemma build_box_isl:
  assumes "max_yx L \<le> min_yx L \<or> max_hw L \<le> min_hw L"
  shows "isl (build_box L rnd box_params hw cell)"
  using assms
  by (auto simp: build_box_def Let_def split: sum.splits prod.splits)

text \<open>
  Claim C2, as stated, fails: the constructor returns a layer for parameters with
  \<open>min_yx \<ge> max_yx\<close> and \<open>min_hw \<ge> max_hw\<close>.
\<close>

theorem constructor_accepts_inverted_ranges:
  "min_yx inverted_params \<ge> max_yx inverted_params
   \<and> min_hw inverted_params \<ge> max_hw inverted_params
   \<and> \<not> isl (GridObjectLayer_init inverted_params (12, 12) None)"
  by (simp add: inverted_params_def GridObjectLayer_init_def)

text \<open>
  Claim C2, amended. The constructor accepts every box-range configuration. The ranges
  are checked by the two assertions of the box builder: with \<open>max_yx \<le> min_yx\<close> or
  \<open>max_hw \<le> min_hw\<close> the builder always ends in an error, and in an AssertionError
  whenever its parameter tensor splits into the eight parts.
\<close>

theorem box_ranges_asserted_by_box_builder:
  assumes "max_yx L \<le> min_yx L \<or> max_hw L \<le> min_hw L"
  shows "isl (build_box L rnd box_params hw cell)
     \<and> (8 dvd length box_params \<longrightarrow> build_box L rnd box_params hw cell = Inl AssertionError)
     \<and> \<not> isl (GridObjectLayer_init ps pixels_per_cell_arg grid_offset_arg)"
proof -
  have "build_box L rnd box_params hw cell = Inl AssertionError" if d: "8 dvd length box_params"
  proof -
    have e: "even (length box_params)" using d by presburger
    have f: "4 dvd (length box_params div 2)" using d by presburger
    have g: "4 dvd length (take (length box_params div 2) box_params)" using f by simp
    have h: "4 dvd length (std_nonlinearity L (drop (length box_params div 2) box_params))"
      using f e by (simp add: length_std_nonlinearity) presburger
    show ?thesis
      using assms
      by (auto simp: build_box_def tf_split2_even [OF e] training_wheels_blend_id Let_def
          tf_split4_dvd [OF g] tf_split4_dvd [OF h])
  qed
  then show ?thesis
    using build_box_isl [OF assms] by (simp add: GridObjectLayer_init_def)
qed

theorem box_ranges_asserted_by_box_builder_witness:
  "build_box (example_layer\<lparr>min_yx := 1, max_yx := 0\<rparr>) example_noise
      [0, 0, 0, 0, 0, 0, 0, 0] (Some (0, 0)) (0, 0) = Inl AssertionError
   \<and> \<not> isl (GridObjectLayer_init inverted_params (12, 12) None)"
  using box_ranges_asserted_by_box_builder
          [of "example_layer\<lparr>min_yx := 1, max_yx := 0\<rparr>" example_noise
              "[0, 0, 0, 0, 0, 0, 0, 0]" "Some (0, 0)" "(0, 0)" inverted_params "(12, 12)" None]
  by (simp add: example_layer_def numeral_eq_Suc)


section \<open>Clipping before the sigmoid\<close>

lemma tadd_smul_zero_one: "length s = length t \<Longrightarrow> tadd (smul 0 s) (smul 1 t) = t"
  by (induction s t rule: list_induct2) (simp_all add: tadd_def smul_def)

lemma build_obj_not_noisy:
  assumes "noisy' L = 0"
  shows "obj_pre_sigmoid (build_obj L sample obj_logit)
           = obj_log_odds (build_obj L sample obj_logit)"
  using assms by (simp add: build_obj_simp tadd_smul_zero_one length_tensor_ops)

text \<open>
  Claim C1, as stated, fails in the presence builder: in training mode with noise, for
  the logit 1000, temperature 1, relaxation temperature one half and the uniform draw one
  half, the value passed through the final sigmoid is 20, outside \<open>[-10, 10]\<close>.
\<close>

theorem presence_sigmoid_input_not_clipped:
  "obj (build_obj example_layer (concrete_sample example_noise) [1000])
     = tf_sigmoid (obj_pre_sigmoid (build_obj example_layer (concrete_sample example_noise) [1000]))
   \<and> obj_pre_sigmoid (build_obj example_layer (concrete_sample example_noise) [1000]) = [20]
   \<and> \<not> list_all (\<lambda>v. - 10 \<le> v \<and> v \<le> 10)
         (obj_pre_sigmoid (build_obj example_layer (concrete_sample example_noise) [1000]))"
proof -
  have "obj_pre_sigmoid (build_obj example_layer (concrete_sample example_noise) [1000]) = [20]"
    by (simp add: build_obj_simp example_layer_def example_noise_def sdivide_def
          tf_clip_by_value_def clip_by_value_def noisy'_def to_float_def tadd_def smul_def
          concrete_binary_pre_sigmoid_sample_def)
  then show ?thesis by (simp add: build_obj_simp)
qed

text \<open>
  Claim C1, amended. Every clipped tensor lies in \<open>[-10, 10]\<close>; the depth and std
  nonlinearities and the four outputs of the box builder apply the sigmoid to a logit
  clipped to \<open>[-10, 10]\<close>; the presence builder clips the temperature-scaled logit to
  \<open>[-10, 10]\<close> (\<open>obj_log_odds\<close>) and \<open>obj_prob\<close> is the sigmoid of that clipped value; the
  final presence is the sigmoid of \<open>obj_pre_sigmoid\<close>, which is the clipped log-odds when
  the noise blend is 0.
\<close>

theorem logits_clipped_before_sigmoid:
  "list_all (\<lambda>v. - 10 \<le> v \<and> v \<le> 10) (tf_clip_by_value t (- 10) 10)
   \<and> z_nonlinearity logit_z = tf_sigmoid (tf_clip_by_value logit_z (- 10) 10)
   \<and> std_nonlinearity L logit_std
       = tadd (smul (noisy' L * 2) (tf_sigmoid (tf_clip_by_value logit_std (- 10) 10)))
              (smul (1 - noisy' L) (tf_zeros_like logit_std))
   \<and> (\<forall>r. build_box L rnd box_params hw cell = Inr r \<longrightarrow>
         cell_y r = sadd (smul (max_yx L - min_yx L) (tf_sigmoid (tf_clip_by_value
           (normal_sample (eps_cell_y rnd) (cell_y_logit_mean r) (cell_y_logit_std r))
           (- 10) 10))) (min_yx L)
       \<and> cell_x r = sadd (smul (max_yx L - min_yx L) (tf_sigmoid (tf_clip_by_value
           (normal_sample (eps_cell_x rnd) (cell_x_logit_mean r) (cell_x_logit_std r))
           (- 10) 10))) (min_yx L)
       \<and> height r = sadd (smul (max_hw L - min_hw L)
           (tf_sigmoid (tf_clip_by_value (ys_logit r) (- 10) 10))) (min_hw L)
       \<and> width r = sadd (smul (max_hw L - min_hw L)
           (tf_sigmoid (tf_clip_by_value (xs_logit r) (- 10) 10))) (min_hw L))
   \<and> obj_log_odds (build_obj L sample obj_logit)
       = tf_clip_by_value (sdivide obj_logit (obj_temp L)) (- 10) 10
   \<and> obj_prob (build_obj L sample obj_logit)
       = tf_sigmoid (obj_log_odds (build_obj L sample obj_logit))
   \<and> obj (build_obj L sample obj_logit)
       = tf_sigmoid (obj_pre_sigmoid (build_obj L sample obj_logit))
   \<and> (noisy' L = 0 \<longrightarrow>
         obj_pre_sigmoid (build_obj L sample obj_logit)
           = obj_log_odds (build_obj L sample obj_logit))"
proof -
  have a: "list_all (\<lambda>v. - 10 \<le> v \<and> v \<le> 10) (tf_clip_by_value t (- 10) 10)"
    by (rule list_all_tf_clip) simp
  have b: "z_nonlinearity logit_z = tf_sigmoid (tf_clip_by_value logit_z (- 10) 10)"
    by (simp add: z_nonlinearity_def)
  have c: "std_nonlinearity L logit_std
       = tadd (smul (noisy' L * 2) (tf_sigmoid (tf_clip_by_value logit_std (- 10) 10)))
              (smul (1 - noisy' L) (tf_zeros_like logit_std))"
    by (simp add: std_nonlinearity_def)
  have d: "obj_log_odds (build_obj L sample obj_logit)
       = tf_clip_by_value (sdivide obj_logit (obj_temp L)) (- 10) 10"
    "obj_prob (build_obj L sample obj_logit)
       = tf_sigmoid (obj_log_odds (build_obj L sample obj_logit))"
    "obj (build_obj L sample obj_logit)
       = tf_sigmoid (obj_pre_sigmoid (build_obj L sample obj_logit))"
    by (simp_all add: build_obj_simp)
  show ?thesis
    using a b c d build_obj_not_noisy [of L sample obj_logit]
      build_box_InrD [of L rnd box_params hw cell]
    by blast
qed

theorem logits_clipped_before_sigmoid_witness:
  "(\<exists>r. build_box example_layer example_noise [0, 0, 0, 0, 0, 0, 0, 0] (Some (1, 2)) (0, 0)
           = Inr r
       \<and> height r = sadd (smul (max_hw example_layer - min_hw example_layer)
           (tf_sigmoid (tf_clip_by_value (ys_logit r) (- 10) 10))) (min_hw example_layer))
   \<and> noisy' (example_layer\<lparr>noisy := False\<rparr>) = 0
   \<and> obj_pre_sigmoid (build_obj (example_layer\<lparr>noisy := False\<rparr>)
        (concrete_sample example_noise) [1000])
       = obj_log_odds (build_obj (example_layer\<lparr>noisy := False\<rparr>)
           (concrete_sample example_noise) [1000])"
proof -
  have h1: "min_yx example_layer < max_yx example_layer"
    by (simp add: example_layer_def)
  have h2: "min_hw example_layer < max_hw example_layer"
    by (simp add: example_layer_def)
  have h3: "8 dvd length [0, 0, 0, 0, 0, 0, 0, 0 :: real]" by (simp add: numeral_eq_Suc)
  obtain r where r: "build_box example_layer example_noise [0, 0, 0, 0, 0, 0, 0, 0]
                       (Some (1, 2)) (0, 0) = Inr r"
    using build_box_returns [OF h1 h2 h3] by blast
  have n: "noisy' (example_layer\<lparr>noisy := False\<rparr>) = 0"
    by (simp add: noisy'_def example_layer_def to_float_def)
  show ?thesis
    using r n
      logits_clipped_before_sigmoid [of _ _ example_layer _ example_noise
        "[0, 0, 0, 0, 0, 0, 0, 0]" "Some (1, 2)" "(0, 0)"]
      logits_clipped_before_sigmoid [of _ _ "example_layer\<lparr>noisy := False\<rparr>" _ _ _ _ _
        "concrete_sample example_noise" "[1000]"]
    by blast
qed

section \<open>The forward pass returns\<close>


















section \<open>The predicted object counts\<close>




section \<open>The convolutional layer and the slot count\<close>

lemma sequence_Inl_D: "sequence cs = Inl e \<Longrightarrow> Inl e \<in> set cs"
proof (induction cs)
  case Nil
  then show ?case by simp
next
  case (Cons c cs)
  then show ?case by (cases c) (auto split: sum.splits)
qed

lemma map_cells_Inl_D:
  assumes "map_cells f g = Inl e"
  shows "\<exists>i j c. f i j c = Inl e"
proof -
  from sequence_Inl_D [OF assms [unfolded map_cells_def]]
  obtain i row where "sequence (map (\<lambda>(j, c). f i j c) (enumerate 0 row)) = Inl e"
    by auto
  from sequence_Inl_D [OF this] obtain j c where "Inl e = f i j c" by auto
  then have "f i j c = Inl e" by simp
  then show ?thesis by blast
qed

lemma sum_bind_Inl_E:
  assumes "(case X of Inl e \<Rightarrow> Inl e | Inr v \<Rightarrow> F v) = Inl e"
  obtains "X = Inl e" | v where "X = Inr v" "F v = Inl e"
  using assms by (cases X) auto

lemma tf_split_errors:
  "tf_split2 t = Inl e \<Longrightarrow> e = ValueError"
  "tf_split4 t = Inl e \<Longrightarrow> e = ValueError"
  "tf_split_sizes2 t n1 n2 = Inl e \<Longrightarrow> e = ValueError"
  "tf_split_sizes3 t n1 n2 n3 = Inl e \<Longrightarrow> e = ValueError"
  by (auto simp: tf_split2_def tf_split4_def tf_split_sizes2_def tf_split_sizes3_def Let_def
        split: if_splits)

lemma build_box_error:
  "build_box L rnd p hw cell = Inl e \<Longrightarrow> e = ValueError \<or> e = AssertionError"
  by (auto simp: build_box_def Let_def split: sum.splits prod.splits if_splits
        dest: tf_split_errors)

lemma Let_result_E:
  assumes "Let t F = r"
  obtains v where "F v = r"
  using assms by (simp add: Let_def)

lemma conv_box_stage_error:
  assumes "(case tf_split_sizes2 out n1 n2 of
              Inl e \<Rightarrow> Inl e
            | Inr (rep_input, features) \<Rightarrow>
                (case build_box L rnd1 rep_input None cell of
                   Inl e \<Rightarrow> Inl e
                 | Inr bx \<Rightarrow> Inr (bx, features))) = Inl e"
  shows "e = ValueError \<or> e = AssertionError"
proof (cases "tf_split_sizes2 out n1 n2")
  case (Inl e1)
  then show ?thesis using assms tf_split_errors(3) [of out n1 n2 e1] by simp
next
  case (Inr v)
  obtain a b where v: "v = (a, b)" by (cases v)
  show ?thesis
  proof (cases "build_box L rnd1 a None cell")
    case (Inl e1)
    then show ?thesis using assms Inr v build_box_error [of L rnd1 a None cell e1] by simp
  next
    case (Inr bx)
    then show ?thesis using assms \<open>tf_split_sizes2 out n1 n2 = Inr v\<close> v by simp
  qed
qed

lemma conv_split3_stage_error:
  assumes "(case tf_split_sizes3 out n1 n2 n3 of
              Inl e \<Rightarrow> Inl e
            | Inr (x1, x2, x3) \<Rightarrow> Inr (F x1 x2 x3)) = Inl e"
  shows "e = ValueError"
proof (cases "tf_split_sizes3 out n1 n2 n3")
  case (Inl e1)
  then show ?thesis using assms tf_split_errors(4) [of out n1 n2 n3 e1] by simp
next
  case (Inr v)
  then show ?thesis using assms by (cases v) auto
qed

lemma conv_call_single_slot_error:
  assumes "nB L0 = 1"
    and "conv_call L0 nets rnd inp_shape H W inp_features training is_posterior prop flatten
           = Inl e"
  shows "e = ValueError \<or> e = AssertionError"
  using assms(2) unfolding conv_call_def
  apply (simp only: assms(1) simp_thms if_False)
  apply (elim Let_result_E)
  apply (erule sum_bind_Inl_E)
  subgoal by (drule map_cells_Inl_D) (auto dest: conv_box_stage_error)
  apply (elim Let_result_E)
  apply (erule sum_bind_Inl_E)
  subgoal by (drule map_cells_Inl_D) (auto dest: conv_split3_stage_error)
  apply (elim Let_result_E)
  apply (erule sum_bind_Inl_E)
  subgoal
    apply (drule map_cells_Inl_D)
    apply (elim exE)
    apply (unfold Let_def)
    apply (drule conv_split3_stage_error)
    apply simp
    done
  apply (elim Let_result_E)
  apply (erule sum_bind_Inl_E)
  subgoal by (drule map_cells_Inl_D) simp
  apply (elim Let_result_E)
  subgoal by (simp split: if_splits)
  done

lemma conv_single_slot_runs:
  "\<exists>objs. conv_call (example_layer\<lparr>nB := 1\<rparr>) example_conv_networks (\<lambda>i j. example_noise)
      (36, 36, 1) 1 1 [[[0]]] True True None False = Inr objs"
  by (simp add: conv_call_def Let_def conv_call_attributes_def example_layer_def
        example_conv_networks_def map_cells_def tf_split_sizes2_def tf_split_sizes3_def
        build_box_def tf_split2_def tf_split4_def training_wheels_blend_id
        length_std_nonlinearity concat_channels_def enumerate_eq_zip)

text \<open>
  Claim C9. With a slot count other than 1 the convolutional layer's call returns the
  exception \<^verbatim>\<open>Exception("NotImplemented")\<close>, whatever its other arguments, and so
  without any latent; with the slot count 1 it never returns that exception.
\<close>

theorem conv_call_rejects_slot_counts:
  "(nB L0 \<noteq> 1 \<longrightarrow>
      conv_call L0 nets rnd inp_shape H W inp_features training is_posterior prop flatten
        = Inl (Exception ''NotImplemented''))
   \<and> (nB L0 = 1 \<longrightarrow>
      conv_call L0 nets rnd inp_shape H W inp_features training is_posterior prop flatten
        \<noteq> Inl (Exception ''NotImplemented''))"
proof -
  have "conv_call L0 nets rnd inp_shape H W inp_features training is_posterior prop flatten
        \<noteq> Inl (Exception ''NotImplemented'')" if "nB L0 = 1"
    using conv_call_single_slot_error [OF that] by blast
  then show ?thesis by (simp add: conv_call_def)
qed


theorem conv_call_rejects_slot_counts_witness:
  "nB example_layer \<noteq> 1
   \<and> conv_call example_layer example_conv_networks (\<lambda>i j. example_noise) (36, 36, 1) 3 3
        (replicate 3 (replicate 3 [0])) True True None False
       = Inl (Exception ''NotImplemented'')
   \<and> nB (example_layer\<lparr>nB := 1\<rparr>) = 1
   \<and> conv_call (example_layer\<lparr>nB := 1\<rparr>) example_conv_networks (\<lambda>i j. example_noise)
        (36, 36, 1) 3 3 (replicate 3 (replicate 3 [0])) True True None False
       \<noteq> Inl (Exception ''NotImplemented'')"
  using conv_call_rejects_slot_counts [of example_layer example_conv_networks
          "\<lambda>i j. example_noise" "(36, 36, 1)" 3 3 "replicate 3 (replicate 3 [0])"
          True True None False]
    conv_call_rejects_slot_counts [of "example_layer\<lparr>nB := 1\<rparr>" example_conv_networks
          "\<lambda>i j. example_noise" "(36, 36, 1)" 3 3 "replicate 3 (replicate 3 [0])"
          True True None False]
  by (simp add: example_layer_def)

end
